theory Spec2Isabelle
  imports Complex_Main
begin

section \<open>Values of the host language\<close>

text \<open>
  The import and export pipelines are TypeScript. A number of the host language is an
  IEEE double; the model keeps the finite ones as exact rationals (every finite double is
  one) and the three special values apart. Negative zero is identified with zero: both are
  falsy and print alike. Arithmetic on \<open>Fin\<close> values is exact, without the rounding of
  doubles.
\<close>

datatype jsnum = NaN | PosInf | NegInf | Fin rat

text \<open>
  A string is a list of characters; the 8-bit characters of HOL are read as the code
  units U+0000 to U+00FF.
\<close>

text \<open>Decimal printing of a natural number, as a template literal prints an integer.\<close>

definition digit_char :: "nat \<Rightarrow> char" where
  "digit_char d = ''0123456789'' ! d"

fun string_of_nat :: "nat \<Rightarrow> string" where
  "string_of_nat n =
     (if n < 10 then [digit_char n]
      else string_of_nat (n div 10) @ [digit_char (n mod 10)])"

declare string_of_nat.simps [simp del]

text \<open>\<open>Math.round\<close>: the nearest integer, a tie going up.\<close>

definition js_round :: "rat \<Rightarrow> int" where
  "js_round x = \<lfloor>x + 1 / 2\<rfloor>"

text \<open>
  White space as \<open>String.prototype.trim\<close> and the regular expression class \<open>\s\<close> see
  it, within U+0000 to U+00FF: tab, line feed, vertical tab, form feed, carriage return,
  space and the no-break space.
\<close>

definition is_space :: "char \<Rightarrow> bool" where
  "is_space c = (of_char c \<in> {9, 10, 11, 12, 13, 32, 160 :: nat})"

definition trim :: "string \<Rightarrow> string" where
  "trim s = rev (dropWhile is_space (rev (dropWhile is_space s)))"

section \<open>The contact schema\<close>

record ImportedContact =
  name :: string
  email :: "string option"
  phone :: "string option"
  location :: "string option"
  details :: "string option"
  institution :: "string option"
  last_interaction_date :: "string option"
  priority :: "jsnum option"

record ImportResult =
  success :: bool
  imported :: nat
  skipped :: nat
  errors :: "string list"

text \<open>The object sent to the storage backend for one contact: the contact and its owner.\<close>

record ContactRow = ImportedContact +
  user_id :: string

section \<open>The import orchestrator\<close>

text \<open>
  What \<open>importContacts\<close> does to the outside world, in order: a call of the progress
  callback (message, percent) and an insert request (the rows sent, and the error message
  of the answer, if any).
\<close>

datatype event = Progress string int | Insert "ContactRow list" "string option"

definition batchSize :: nat where
  "batchSize = 50"

definition contactsToInsert :: "string \<Rightarrow> ImportedContact list \<Rightarrow> ContactRow list" where
  "contactsToInsert uid batch =
     map (\<lambda>contact. \<lparr>name = name contact, email = email contact, phone = phone contact,
            location = location contact, details = details contact,
            institution = institution contact,
            last_interaction_date = last_interaction_date contact,
            priority = priority contact, user_id = uid\<rparr>) batch"

definition progress_message :: "nat \<Rightarrow> nat \<Rightarrow> string" where
  "progress_message i totalContacts =
     ''Importing contacts '' @ string_of_nat (i + 1) @ '' - ''
       @ string_of_nat (min (i + batchSize) totalContacts) @ '' of ''
       @ string_of_nat totalContacts @ ''...''"

text \<open>
  The percent of a batch. The quotient and the product are exact here; the source
  computes them in doubles, and where the exact value lies on a tie the rounded product
  can fall just below it, so that the source reports one percent less (1150 of 2000 rows:
  58 here, 57 there). No statement about counts, batches or errors depends on it.
\<close>

definition import_percent :: "nat \<Rightarrow> nat \<Rightarrow> nat \<Rightarrow> int" where
  "import_percent i len totalContacts =
     js_round (of_nat (i + len) / of_nat totalContacts * 100)"

text \<open>
  The batch loop \<open>for (let i = 0; i < validContacts.length; i += batchSize)\<close>. The
  storage backend is a parameter: \<open>ins\<close> takes the store and the rows of one insert
  request and answers with an error message or none, and the store after the request. The
  loop threads the result record, the store and the trace of events.
\<close>

function import_loop ::
  "string \<Rightarrow> ('db \<Rightarrow> ContactRow list \<Rightarrow> string option \<times> 'db) \<Rightarrow> ImportedContact list
     \<Rightarrow> nat \<Rightarrow> ImportResult \<times> 'db \<times> event list \<Rightarrow> ImportResult \<times> 'db \<times> event list" where
  "import_loop uid ins validContacts i (result, db, tr) =
     (if i < length validContacts then
        (let batch = take batchSize (drop i validContacts);
             percent = import_percent i (length batch) (length validContacts);
             rows = contactsToInsert uid batch;
             (error, db') = ins db rows;
             result' = (case error of
                  Some message \<Rightarrow>
                    result\<lparr>errors := errors result
                               @ [''Batch '' @ string_of_nat (i div batchSize + 1)
                                    @ '' failed: '' @ message],
                            skipped := skipped result + length batch\<rparr>
                | None \<Rightarrow> result\<lparr>imported := imported result + length batch\<rparr>)
         in import_loop uid ins validContacts (i + batchSize)
              (result', db',
               tr @ [Progress (progress_message i (length validContacts)) percent,
                     Insert rows error]))
      else (result, db, tr))"
  by pat_completeness auto
termination
  by (relation "measure (\<lambda>(uid, ins, validContacts, i, st). length validContacts - i)")
     (auto simp: batchSize_def)

declare import_loop.simps [simp del]

definition importContacts ::
  "string option \<Rightarrow> ('db \<Rightarrow> ContactRow list \<Rightarrow> string option \<times> 'db) \<Rightarrow> 'db
     \<Rightarrow> ImportedContact list \<Rightarrow> ImportResult \<times> 'db \<times> event list" where
  "importContacts user ins db contacts =
     (let result = \<lparr>success = True, imported = 0, skipped = 0, errors = []\<rparr> in
      case user of
        None \<Rightarrow> (result\<lparr>success := False, errors := [''Not authenticated'']\<rparr>, db, [])
      | Some uid \<Rightarrow>
          (let validContacts = filter (\<lambda>c. trim (name c) \<noteq> []) contacts;
               totalContacts = length validContacts
           in if totalContacts = 0 then
                (result\<lparr>success := False,
                        errors := [''No valid contacts found (name is required)'']\<rparr>, db, [])
              else
                (let (result1, db1, tr1) = import_loop uid ins validContacts 0 (result, db, []);
                     result2 = result1\<lparr>skipped := skipped result1
                                  + (length contacts - length validContacts)\<rparr>;
                     result3 = (if errors result2 \<noteq> [] then result2\<lparr>success := False\<rparr>
                                else result2)
                 in (result3, db1, tr1))))"

text \<open>The insert requests of a trace, and the percents handed to the progress callback.\<close>

fun insert_events :: "event list \<Rightarrow> (ContactRow list \<times> string option) list" where
  "insert_events [] = []"
| "insert_events (Progress m p # tr) = insert_events tr"
| "insert_events (Insert rows e # tr) = (rows, e) # insert_events tr"

fun progress_events :: "event list \<Rightarrow> int list" where
  "progress_events [] = []"
| "progress_events (Progress m p # tr) = p # progress_events tr"
| "progress_events (Insert rows e # tr) = progress_events tr"

text \<open>
  Reference partition of a list into consecutive pieces of \<open>n\<close> elements, the last one
  possibly shorter; the batches of the loop are compared with it.
\<close>

function chunks :: "nat \<Rightarrow> 'a list \<Rightarrow> 'a list list" where
  "chunks n xs = (if n = 0 \<or> xs = [] then [] else take n xs # chunks n (drop n xs))"
  by pat_completeness auto
termination
  by (relation "measure (\<lambda>(n, xs). length xs)") auto

declare chunks.simps [simp del]

text \<open>
  Over the answered insert requests of a run: the rows of the requests that succeeded, the
  rows of those that failed, and the error messages expected for the failed ones, the
  \<open>k\<close>-th request (from 0) being batch \<open>k + 1\<close>.
\<close>

fun rows_ok :: "(ContactRow list \<times> string option) list \<Rightarrow> nat" where
  "rows_ok [] = 0"
| "rows_ok ((b, None) # rs) = length b + rows_ok rs"
| "rows_ok ((b, Some m) # rs) = rows_ok rs"

fun rows_failed :: "(ContactRow list \<times> string option) list \<Rightarrow> nat" where
  "rows_failed [] = 0"
| "rows_failed ((b, None) # rs) = rows_failed rs"
| "rows_failed ((b, Some m) # rs) = length b + rows_failed rs"

fun batch_errors :: "nat \<Rightarrow> (ContactRow list \<times> string option) list \<Rightarrow> string list" where
  "batch_errors k [] = []"
| "batch_errors k ((b, None) # rs) = batch_errors (Suc k) rs"
| "batch_errors k ((b, Some m) # rs) =
     (''Batch '' @ string_of_nat (k + 1) @ '' failed: '' @ m) # batch_errors (Suc k) rs"


text \<open>
  The percent handed to the callback once the rows before index \<open>i\<close> have been
  submitted, out of \<open>n\<close> valid rows.
\<close>

definition percent_upto :: "nat \<Rightarrow> nat \<Rightarrow> int" where
  "percent_upto i n = js_round (of_nat (min i n) / of_nat n * 100)"

subsection \<open>A concrete run\<close>

text \<open>
  120 named rows and 3 rows whose name is blank, against a backend that counts the
  requests it receives and refuses the second one.
\<close>

definition demo_contact :: "string \<Rightarrow> ImportedContact" where
  "demo_contact n = \<lparr>name = n, email = None, phone = None, location = None, details = None,
     institution = None, last_interaction_date = None, priority = None\<rparr>"

definition demo_contacts_120 :: "ImportedContact list" where
  "demo_contacts_120 = replicate 120 (demo_contact ''Jane Doe'') @ replicate 3 (demo_contact ''  '')"

definition fail_second ::
  "nat \<times> ContactRow list \<Rightarrow> ContactRow list \<Rightarrow> string option \<times> (nat \<times> ContactRow list)" where
  "fail_second db rows =
     (case db of (k, stored) \<Rightarrow>
        if k = 1 then (Some ''timeout'', (k + 1, stored)) else (None, (k + 1, stored @ rows)))"

section \<open>The export orchestrator\<close>

text \<open>
  The stored contact of \<open>types/index.ts\<close> has the fields of an imported contact, the
  owner, and \<open>id\<close>, \<open>created_at\<close> and \<open>updated_at\<close>; the record extends the row of
  the import by the three. The field \<open>id\<close> is written \<open>id'\<close>. An attachment has an
  \<open>id\<close>, a \<open>user_id\<close> and a \<open>created_at\<close> of its own, prefixed here.
\<close>

record Contact = ContactRow +
  id' :: string
  created_at :: string
  updated_at :: string

record Attachment =
  att_id :: string
  contact_id :: string
  att_user_id :: string
  file_name :: string
  file_path :: string
  file_type :: "string option"
  file_size :: "jsnum option"
  att_created_at :: string

record ContactWithAttachments = Contact +
  attachments :: "Attachment list"

text \<open>
  \<open>sanitizeName\<close>: each of the characters \<open><\<close>, \<open>>\<close>, \<open>:\<close>, the double quote, \<open>/\<close>,
  the backslash, \<open>|\<close>, \<open>?\<close> and \<open>*\<close> becomes an underscore, then the name is trimmed.
\<close>

definition is_illegal :: "char \<Rightarrow> bool" where
  "is_illegal c = (of_char c \<in> {60, 62, 58, 34, 47, 92, 124, 63, 42 :: nat})"

definition sanitizeName :: "string \<Rightarrow> string" where
  "sanitizeName n = trim (map (\<lambda>c. if is_illegal c then CHR ''_'' else c) n)"

text \<open>
  One row of the sheet that \<open>generateExcel\<close> builds. \<open>Priority\<close> is the number, or
  nothing where the source writes the empty string. The two date formatters of the source
  print in the locale of the browser; \<open>toLocaleDate\<close> and \<open>toLocaleDateTime\<close> stand
  for \<open>toLocaleDateString\<close> with the two option sets.
\<close>

record ExcelRow =
  Num :: nat
  Name :: string
  Institution :: string
  Email :: string
  Phone :: string
  Location :: string
  Priority :: "jsnum option"
  Last_Interaction :: string
  Notes :: string
  Files_Count :: nat
  File_Names :: string
  Created :: string
  Updated :: string

definition or_empty :: "string option \<Rightarrow> string" where
  "or_empty v = (case v of None \<Rightarrow> [] | Some s \<Rightarrow> s)"

definition formatInteractionDate :: "(string \<Rightarrow> string) \<Rightarrow> string option \<Rightarrow> string" where
  "formatInteractionDate toLocaleDate dateString =
     (case dateString of None \<Rightarrow> []
      | Some s \<Rightarrow> if s = [] then [] else toLocaleDate s)"

fun join :: "string \<Rightarrow> string list \<Rightarrow> string" where
  "join sep [] = []"
| "join sep [x] = x"
| "join sep (x # y # ys) = x @ sep @ join sep (y # ys)"

fun excel_rows ::
  "(string \<Rightarrow> string) \<Rightarrow> (string \<Rightarrow> string) \<Rightarrow> nat \<Rightarrow> ContactWithAttachments list
     \<Rightarrow> ExcelRow list" where
  "excel_rows toLocaleDate toLocaleDateTime index [] = []"
| "excel_rows toLocaleDate toLocaleDateTime index (contact # rest) =
     \<lparr>Num = index + 1,
      Name = name contact,
      Institution = or_empty (institution contact),
      Email = or_empty (email contact),
      Phone = or_empty (phone contact),
      Location = or_empty (location contact),
      Priority = (case priority contact of
                    None \<Rightarrow> None
                  | Some p \<Rightarrow> if p = Fin 0 \<or> p = NaN then None else Some p),
      Last_Interaction = formatInteractionDate toLocaleDate (last_interaction_date contact),
      Notes = or_empty (details contact),
      Files_Count = length (attachments contact),
      File_Names = join '', '' (map file_name (attachments contact)),
      Created = toLocaleDateTime (created_at contact),
      Updated = toLocaleDateTime (updated_at contact)\<rparr>
     # excel_rows toLocaleDate toLocaleDateTime (index + 1) rest"

definition generateExcel ::
  "(string \<Rightarrow> string) \<Rightarrow> (string \<Rightarrow> string) \<Rightarrow> ContactWithAttachments list
     \<Rightarrow> ExcelRow list" where
  "generateExcel toLocaleDate toLocaleDateTime contacts =
     excel_rows toLocaleDate toLocaleDateTime 0 contacts"

text \<open>
  The archive, as the zip library keeps it: a table from the path of an entry to the
  entry, in order of first insertion. Putting a file under a path that is present replaces
  the entry. \<open>folder\<close> with an empty name is the folder itself; otherwise it adds the
  directory entry unless present and returns its path as the new base.
\<close>

datatype zip_entry = Dir | Sheet "ExcelRow list" | Blob string

type_synonym zip = "(string \<times> zip_entry) list"

fun zip_put :: "string \<Rightarrow> zip_entry \<Rightarrow> zip \<Rightarrow> zip" where
  "zip_put k v [] = [(k, v)]"
| "zip_put k v ((k', v') # z) = (if k = k' then (k, v) # z else (k', v') # zip_put k v z)"

definition zip_file :: "string \<Rightarrow> string \<Rightarrow> zip_entry \<Rightarrow> zip \<Rightarrow> zip" where
  "zip_file base n data z = zip_put (base @ n) data z"

definition zip_folder :: "string \<Rightarrow> string \<Rightarrow> zip \<Rightarrow> string \<times> zip" where
  "zip_folder base arg z =
     (if arg = [] then (base, z)
      else (let n = base @ arg @ ''/''
            in (n, if n \<in> fst ` set z then z else z @ [(n, Dir)])))"

text \<open>The answer of the object store to one download: the bytes, an error, or an exception.\<close>

datatype download_result = Downloaded string | DownloadError string | DownloadThrows

text \<open>
  The inner loop over the attachments of one contact, \<open>j\<close> counting from 0. The state is
  the archive and the calls of the progress callback so far. A download that answers with
  an error, or throws, is logged and the file is skipped.
\<close>

fun download_loop ::
  "(string \<Rightarrow> download_result) \<Rightarrow> string \<Rightarrow> string \<Rightarrow> nat \<Rightarrow> nat \<Rightarrow> nat \<Rightarrow> nat
     \<Rightarrow> Attachment list \<Rightarrow> zip \<times> (string \<times> int) list \<Rightarrow> zip \<times> (string \<times> int) list" where
  "download_loop download cname base i len totalAttachments j [] (z, tr) = (z, tr)"
| "download_loop download cname base i len totalAttachments j (attachment # rest) (z, tr) =
     (let progressPercent =
            30 + (of_nat (i * len + j) / of_nat totalAttachments) * 60;
          tr' = tr @ [(''Downloading: '' @ file_name attachment @ '' ('' @ cname @ '')'',
                       js_round progressPercent)];
          z' = (case download (file_path attachment) of
                  Downloaded fileData \<Rightarrow>
                    zip_file base (sanitizeName (file_name attachment)) (Blob fileData) z
                | DownloadError e \<Rightarrow> z
                | DownloadThrows \<Rightarrow> z)
      in download_loop download cname base i len totalAttachments (Suc j) rest (z', tr'))"

text \<open>The outer loop over the contacts, \<open>i\<close> counting from 0.\<close>

fun contact_loop ::
  "(string \<Rightarrow> download_result) \<Rightarrow> string \<Rightarrow> nat \<Rightarrow> nat \<Rightarrow> ContactWithAttachments list
     \<Rightarrow> zip \<times> (string \<times> int) list \<Rightarrow> zip \<times> (string \<times> int) list" where
  "contact_loop download attachmentsFolder totalAttachments i [] (z, tr) = (z, tr)"
| "contact_loop download attachmentsFolder totalAttachments i (contact # rest) (z, tr) =
     contact_loop download attachmentsFolder totalAttachments (Suc i) rest
       (if length (attachments contact) > 0 then
          (let contactFolderName = sanitizeName (name contact);
               (contactFolder, z1) = zip_folder attachmentsFolder contactFolderName z
           in download_loop download (name contact) contactFolder i
                (length (attachments contact)) totalAttachments 0 (attachments contact)
                (z1, tr))
        else (z, tr))"

text \<open>Grouping the attachment rows by contact, as the \<open>Map\<close> of the source is filled.\<close>

definition group_by_contact :: "Attachment list \<Rightarrow> (string \<rightharpoonup> Attachment list)" where
  "group_by_contact atts =
     fold (\<lambda>attachment m.
             m(contact_id attachment \<mapsto>
                 (case m (contact_id attachment) of None \<Rightarrow> [] | Some existing \<Rightarrow> existing)
                   @ [attachment]))
          atts Map.empty"

definition with_attachments ::
  "(string \<rightharpoonup> Attachment list) \<Rightarrow> Contact \<Rightarrow> ContactWithAttachments" where
  "with_attachments m contact =
     Contact.extend contact
       (ContactWithAttachments.fields
          (case m (id' contact) of None \<Rightarrow> [] | Some atts \<Rightarrow> atts))"

text \<open>
  \<open>exportAllData\<close>. The two queries are given by their answers: an error message, or
  the rows (\<open>None\<close> for a null \<open>data\<close>). The result is the list of calls of the progress
  callback, and either the message of the exception thrown or the name and the content of
  the archive saved. \<open>today\<close> is the ISO calendar date of the export.
\<close>

definition exportAllData ::
  "(string \<Rightarrow> string) \<Rightarrow> (string \<Rightarrow> string) \<Rightarrow> string
     \<Rightarrow> string + Contact list option \<Rightarrow> string + Attachment list option
     \<Rightarrow> (string \<Rightarrow> download_result)
     \<Rightarrow> (string \<times> int) list \<times> (string + string \<times> zip)" where
  "exportAllData toLocaleDate toLocaleDateTime today contactsQuery attachmentsQuery download =
     (let tr1 = [(''Fetching contacts...'', 5)] in
      case contactsQuery of
        Inl message \<Rightarrow> (tr1, Inl (''Failed to fetch contacts: '' @ message))
      | Inr None \<Rightarrow> (tr1, Inl ''No contacts to export'')
      | Inr (Some contacts) \<Rightarrow>
          if contacts = [] then (tr1, Inl ''No contacts to export'')
          else
            (let tr2 = tr1 @ [(''Fetching attachments info...'', 15)] in
             case attachmentsQuery of
               Inl message \<Rightarrow> (tr2, Inl (''Failed to fetch attachments: '' @ message))
             | Inr data \<Rightarrow>
                 (let allAttachments = (case data of None \<Rightarrow> [] | Some atts \<Rightarrow> atts);
                      attachmentsByContact = group_by_contact allAttachments;
                      contactsWithAttachments =
                        map (with_attachments attachmentsByContact) contacts;
                      tr3 = tr2 @ [(''Generating Excel file...'', 25)];
                      excelBlob = generateExcel toLocaleDate toLocaleDateTime
                                    contactsWithAttachments;
                      z1 = zip_file [] ''Contacts.xlsx'' (Sheet excelBlob) [];
                      totalAttachments = length allAttachments;
                      (z3, tr4) =
                        (if totalAttachments > 0 then
                           (let (attachmentsFolder, z2) = zip_folder [] ''Attachments'' z1
                            in contact_loop download attachmentsFolder totalAttachments 0
                                 contactsWithAttachments (z2, tr3))
                         else (z1, tr3));
                      tr5 = tr4 @ [(''Creating zip file...'', 95)];
                      filename = ''IR_CRM_Backup_'' @ today @ ''.zip'';
                      tr6 = tr5 @ [(''Download starting...'', 100)]
                  in (tr6, Inr (filename, z3)))))"

subsection \<open>Concrete exports\<close>

text \<open>A stored contact and an attachment row with the fields the export reads.\<close>

definition mk_contact :: "string \<Rightarrow> string \<Rightarrow> Contact" where
  "mk_contact cid n = \<lparr>name = n, email = None, phone = None, location = None, details = None,
     institution = None, last_interaction_date = None, priority = None, user_id = ''u1'',
     id' = cid, created_at = ''2025-01-01T00:00:00Z'', updated_at = ''2025-01-02T00:00:00Z''\<rparr>"

definition mk_attachment :: "string \<Rightarrow> string \<Rightarrow> string \<Rightarrow> Attachment" where
  "mk_attachment cid fname fpath = \<lparr>att_id = fpath, contact_id = cid, att_user_id = ''u1'',
     file_name = fname, file_path = fpath, file_type = None, file_size = None,
     att_created_at = ''2025-01-03T00:00:00Z''\<rparr>"

section \<open>Cell values and the conversions of the host language\<close>

text \<open>
  The values a cell of a parsed sheet can hold (the reader is called with \<open>raw: true\<close>
  and \<open>defval: null\<close>): nothing, a boolean, a number or a string; and a date object,
  which the date normalizer also accepts. A date object carries its time value in
  milliseconds since the epoch, or none when it is invalid.
\<close>

datatype jsval = JUndefined | JNull | JBool bool | JNum jsnum | JStr string | JDate "int option"

text \<open>Truthiness, as \<open>!value\<close> and \<open>if (value)\<close> test it.\<close>

fun truthy :: "jsval \<Rightarrow> bool" where
  "truthy JUndefined = False"
| "truthy JNull = False"
| "truthy (JBool b) = b"
| "truthy (JNum n) = (n \<noteq> NaN \<and> n \<noteq> Fin 0)"
| "truthy (JStr s) = (s \<noteq> [])"
| "truthy (JDate d) = True"

text \<open>The comparison \<open><\<close> on numbers; every comparison with \<open>NaN\<close> is false.\<close>

fun js_less :: "jsnum \<Rightarrow> jsnum \<Rightarrow> bool" where
  "js_less NaN y = False"
| "js_less x NaN = False"
| "js_less PosInf y = False"
| "js_less x NegInf = False"
| "js_less NegInf y = True"
| "js_less x PosInf = True"
| "js_less (Fin a) (Fin b) = (a < b)"

text \<open>
  What the pipeline takes from its surroundings: the parts of the engine and of the
  spreadsheet library that are not code of the repository.
  \<^item> \<open>number_to_string\<close>: the printing of a finite number that is not an integer below
    \<open>10^21\<close> in magnitude;
  \<^item> \<open>date_to_string\<close>: \<open>String\<close> applied to a date object;
  \<^item> \<open>parse_date_code\<close>: the serial-date decoder of the spreadsheet library, giving
    year, month and day, or nothing;
  \<^item> \<open>date_parse\<close>: the time value of \<open>new Date(string)\<close>, or nothing for an invalid
    date;
  \<^item> \<open>local_offset\<close>: the offset of local time from UTC, in milliseconds, at a time
    value.
\<close>

record engine =
  number_to_string :: "rat \<Rightarrow> string"
  date_to_string :: "int option \<Rightarrow> string"
  parse_date_code :: "jsnum \<Rightarrow> (int \<times> int \<times> int) option"
  date_parse :: "string \<Rightarrow> int option"
  local_offset :: "int \<Rightarrow> int"

definition string_of_int :: "int \<Rightarrow> string" where
  "string_of_int k = (if k < 0 then ''-'' @ string_of_nat (nat (- k)) else string_of_nat (nat k))"

definition num_to_string :: "engine \<Rightarrow> jsnum \<Rightarrow> string" where
  "num_to_string env n =
     (case n of
        NaN \<Rightarrow> ''NaN''
      | PosInf \<Rightarrow> ''Infinity''
      | NegInf \<Rightarrow> ''-Infinity''
      | Fin q \<Rightarrow>
          if of_int \<lfloor>q\<rfloor> = q \<and> \<bar>q\<bar> < 10 ^ 21 then string_of_int \<lfloor>q\<rfloor>
          else number_to_string env q)"

text \<open>\<open>String(value)\<close>.\<close>

fun to_string :: "engine \<Rightarrow> jsval \<Rightarrow> string" where
  "to_string env JUndefined = ''undefined''"
| "to_string env JNull = ''null''"
| "to_string env (JBool b) = (if b then ''true'' else ''false'')"
| "to_string env (JNum n) = num_to_string env n"
| "to_string env (JStr s) = s"
| "to_string env (JDate d) = date_to_string env d"

text \<open>
  \<open>toLowerCase\<close> on the code units U+0000 to U+00FF: the letters A to Z, and the
  letters U+00C0 to U+00DE except the multiplication sign U+00D7, move up by 32.
\<close>

definition lower_char :: "char \<Rightarrow> char" where
  "lower_char c =
     (let n = (of_char c :: nat)
      in if (65 \<le> n \<and> n \<le> 90) \<or> (192 \<le> n \<and> n \<le> 222 \<and> n \<noteq> 215) then char_of (n + 32)
         else c)"

definition toLowerCase :: "string \<Rightarrow> string" where
  "toLowerCase s = map lower_char s"

text \<open>
  Digits: the value of a character as a digit of the given radix, if it is one. The
  radix is 10 or 16 here, so the table ends at \<open>f\<close>.
\<close>

definition digit_table :: "(char \<times> int) list" where
  "digit_table =
     [(CHR ''0'', 0), (CHR ''1'', 1), (CHR ''2'', 2), (CHR ''3'', 3), (CHR ''4'', 4),
      (CHR ''5'', 5), (CHR ''6'', 6), (CHR ''7'', 7), (CHR ''8'', 8), (CHR ''9'', 9),
      (CHR ''a'', 10), (CHR ''b'', 11), (CHR ''c'', 12), (CHR ''d'', 13), (CHR ''e'', 14),
      (CHR ''f'', 15),
      (CHR ''A'', 10), (CHR ''B'', 11), (CHR ''C'', 12), (CHR ''D'', 13), (CHR ''E'', 14),
      (CHR ''F'', 15)]"

definition digit_val :: "int \<Rightarrow> char \<Rightarrow> int option" where
  "digit_val radix c =
     (case map_of digit_table c of
        None \<Rightarrow> None
      | Some d \<Rightarrow> if d < radix then Some d else None)"

definition digits_value :: "int \<Rightarrow> string \<Rightarrow> int" where
  "digits_value radix z =
     foldl (\<lambda>acc c. acc * radix + (case digit_val radix c of Some d \<Rightarrow> d | None \<Rightarrow> 0)) 0 z"

text \<open>
  \<open>parseInt\<close> with no radix: leading white space is dropped, then an optional sign, then
  an optional \<open>0x\<close> or \<open>0X\<close> that selects radix 16; the longest run of digits of the
  radix is the value, and there is no number when the run is empty.
\<close>

definition parseInt :: "string \<Rightarrow> jsnum" where
  "parseInt inputString =
     (let s = dropWhile is_space inputString;
          (sign, s1) = (case s of
                          [] \<Rightarrow> (1 :: int, s)
                        | c # r \<Rightarrow> if c = CHR ''-'' then (- 1, r)
                                   else if c = CHR ''+'' then (1, r) else (1, s));
          (radix, s2) = (if take 2 s1 = ''0x'' \<or> take 2 s1 = ''0X'' then (16 :: int, drop 2 s1)
                         else (10, s1));
          z = takeWhile (\<lambda>c. digit_val radix c \<noteq> None) s2
      in if z = [] then NaN else Fin (of_int (sign * digits_value radix z)))"

text \<open>
  \<open>parseFloat\<close>: leading white space is dropped; the longest prefix that is a decimal
  literal (a sign, then \<open>Infinity\<close> or digits with an optional fraction and an optional
  exponent) gives the value, and there is no number when no prefix is one. What follows
  the literal is ignored. The value is exact here, where the engine rounds to a double:
  a literal within a rounding error of 40000 or 60000 can fall on the other side of the
  bound of the serial range there. No input used below is of that kind.
\<close>

definition is_digit :: "char \<Rightarrow> bool" where
  "is_digit c = (digit_val 10 c \<noteq> None)"

definition parse_exponent :: "string \<Rightarrow> int" where
  "parse_exponent r =
     (case r of
        [] \<Rightarrow> 0
      | c # r1 \<Rightarrow>
          if c = CHR ''e'' \<or> c = CHR ''E'' then
            (let (esign, r2) = (case r1 of
                                  [] \<Rightarrow> (1 :: int, r1)
                                | c2 # r3 \<Rightarrow> if c2 = CHR ''-'' then (- 1, r3)
                                             else if c2 = CHR ''+'' then (1, r3) else (1, r1));
                 ed = takeWhile is_digit r2
             in if ed = [] then 0 else esign * digits_value 10 ed)
          else 0)"

definition pow10 :: "int \<Rightarrow> rat" where
  "pow10 e = (if e < 0 then 1 / 10 ^ nat (- e) else 10 ^ nat e)"

definition parseFloat :: "string \<Rightarrow> jsnum" where
  "parseFloat inputString =
     (let s = dropWhile is_space inputString;
          (neg, s1) = (case s of
                         [] \<Rightarrow> (False, s)
                       | c # r \<Rightarrow> if c = CHR ''-'' then (True, r)
                                  else if c = CHR ''+'' then (False, r) else (False, s))
      in if take 8 s1 = ''Infinity'' then (if neg then NegInf else PosInf)
         else
           (let ip = takeWhile is_digit s1;
                r1 = dropWhile is_digit s1;
                (fp, r2) = (case r1 of
                              [] \<Rightarrow> ([], r1)
                            | c # r \<Rightarrow> if c = CHR ''.'' then (takeWhile is_digit r, dropWhile is_digit r)
                                       else ([], r1))
            in if ip = [] \<and> fp = [] then NaN
               else
                 (let m = of_int (digits_value 10 ip)
                            + of_int (digits_value 10 fp) / 10 ^ length fp;
                      v = m * pow10 (parse_exponent r2)
                  in Fin (if neg then - v else v))))"

section \<open>Calendar dates\<close>

text \<open>
  The proleptic Gregorian date (year, month, day) of a day number counted from
  1970-01-01, as the \<open>Date\<close> objects of the engine compute it.
\<close>

definition civil_from_days :: "int \<Rightarrow> int \<times> int \<times> int" where
  "civil_from_days days =
     (let z = days + 719468;
          era = z div 146097;
          doe = z - era * 146097;
          yoe = (doe - doe div 1460 + doe div 36524 - doe div 146096) div 365;
          doy = doe - (365 * yoe + yoe div 4 - yoe div 100);
          mp = (5 * doy + 2) div 153;
          d = doy - (153 * mp + 2) div 5 + 1;
          m = (if mp < 10 then mp + 3 else mp - 9);
          y = yoe + era * 400 + (if m \<le> 2 then 1 else 0)
      in (y, m, d))"

definition days_from_civil :: "int \<Rightarrow> int \<Rightarrow> int \<Rightarrow> int" where
  "days_from_civil y0 m d =
     (let y = (if m \<le> 2 then y0 - 1 else y0);
          era = y div 400;
          yoe = y - era * 400;
          doy = (153 * (if m > 2 then m - 3 else m + 9) + 2) div 5 + d - 1;
          doe = yoe * 365 + yoe div 4 - yoe div 100 + doy
      in era * 146097 + doe - 719468)"

text \<open>\<open>getFullYear\<close>, \<open>getMonth() + 1\<close> and \<open>getDate\<close>: the date in local time.\<close>

definition local_ymd :: "engine \<Rightarrow> int \<Rightarrow> int \<times> int \<times> int" where
  "local_ymd env t = civil_from_days ((t + local_offset env t) div 86400000)"

text \<open>\<open>String(n).padStart(2, '0')\<close> and the template \<open>year-month-day\<close>.\<close>

definition pad2 :: "int \<Rightarrow> string" where
  "pad2 n = (let s = string_of_int n in if length s < 2 then replicate (2 - length s) CHR ''0'' @ s else s)"

definition format_ymd :: "int \<times> int \<times> int \<Rightarrow> string" where
  "format_ymd ymd = (case ymd of (year, month, day) \<Rightarrow>
     string_of_int year @ ''-'' @ pad2 month @ ''-'' @ pad2 day)"

section \<open>The value normalizers\<close>

definition parseExcelDate :: "engine \<Rightarrow> jsval \<Rightarrow> string option" where
  "parseExcelDate env v =
     (if \<not> truthy v then None
      else case v of
        JNum n \<Rightarrow> map_option format_ymd (parse_date_code env n)
      | JStr s \<Rightarrow>
          (let trimmed = trim s in
           if trimmed = [] then None
           else
             (let numValue = parseFloat trimmed;
                  serial = (if numValue \<noteq> NaN \<and> js_less (Fin 40000) numValue
                               \<and> js_less numValue (Fin 60000)
                            then parse_date_code env numValue else None)
              in case serial of
                   Some date \<Rightarrow> Some (format_ymd date)
                 | None \<Rightarrow> map_option (\<lambda>t. format_ymd (local_ymd env t)) (date_parse env trimmed)))
      | JDate d \<Rightarrow> map_option (\<lambda>t. format_ymd (local_ymd env t)) d
      | _ \<Rightarrow> None)"

definition parsePriority :: "engine \<Rightarrow> jsval \<Rightarrow> jsnum option" where
  "parsePriority env v =
     (if \<not> truthy v then None
      else if v = JStr ''N/A'' \<or> v = JStr ''n/a'' \<or> v = JStr ''-'' then None
      else
        (let num = (case v of JNum n \<Rightarrow> n | _ \<Rightarrow> parseInt (trim (to_string env v)))
         in if num = NaN \<or> js_less num (Fin 1) \<or> js_less (Fin 5) num then None
            else Some num))"

section \<open>The column mapper and the row normalizer\<close>

definition normalizeColumnName :: "string \<Rightarrow> string" where
  "normalizeColumnName n =
     filter (\<lambda>c. \<not> (c = CHR ''_'' \<or> is_space c)) (trim (toLowerCase n))"

text \<open>The keys of \<open>ImportedContact\<close>, the values of the table \<open>columnMappings\<close>.\<close>

datatype field = K_name | K_email | K_phone | K_location | K_details | K_institution
  | K_last_interaction_date | K_priority

definition columnMappings :: "(string \<times> field) list" where
  "columnMappings =
     [(''name'', K_name),
      (''fullname'', K_name),
      (''contactname'', K_name),
      (''email'', K_email),
      (''emailaddress'', K_email),
      (''mail'', K_email),
      (''phone'', K_phone),
      (''phonenumber'', K_phone),
      (''telephone'', K_phone),
      (''tel'', K_phone),
      (''mobile'', K_phone),
      (''location'', K_location),
      (''city'', K_location),
      (''address'', K_location),
      (''country'', K_location),
      (''notes'', K_details),
      (''details'', K_details),
      (''note'', K_details),
      (''description'', K_details),
      (''comments'', K_details),
      (''institution'', K_institution),
      (''company'', K_institution),
      (''organization'', K_institution),
      (''org'', K_institution),
      (''firm'', K_institution),
      (''fund'', K_institution),
      (''dateoflastinteraction'', K_last_interaction_date),
      (''date'', K_last_interaction_date),
      (''lastinteractiondate'', K_last_interaction_date),
      (''lastcontactdate'', K_last_interaction_date),
      (''interactiondate'', K_last_interaction_date),
      (''priority'', K_priority),
      (''priorty'', K_priority),
      (''rank'', K_priority),
      (''importance'', K_priority)]"

definition extraNotesColumns :: "string list" where
  "extraNotesColumns = [''lastinteraction'', ''documentsprovided'', ''documents'']"

text \<open>
  The field a header resolves to: \<open>columnMappings[normalizeColumnName(key)]\<close>. The
  table is an object literal; the one inherited property whose name a normalized key can
  take is \<open>constructor\<close>, which selects no field of the contact and is no extra-notes
  column, so that such a header is dropped like an unmapped one.
\<close>

definition column_field :: "string \<Rightarrow> field option" where
  "column_field key = map_of columnMappings (normalizeColumnName key)"

text \<open>
  A raw row is the list of its entries (header, cell value) in the order of
  \<open>Object.entries\<close>.
\<close>

type_synonym raw_row = "(string \<times> jsval) list"

definition empty_contact :: ImportedContact where
  "empty_contact = \<lparr>name = [], email = None, phone = None, location = None, details = None,
     institution = None, last_interaction_date = None, priority = None\<rparr>"

text \<open>
  The body of the loop over the entries of a row; the state is the contact under
  construction and the list \<open>extraNotes\<close>.
\<close>

definition map_entry ::
  "engine \<Rightarrow> string \<times> jsval \<Rightarrow> ImportedContact \<times> string list
     \<Rightarrow> ImportedContact \<times> string list" where
  "map_entry env kv st =
     (case kv of (key, v) \<Rightarrow> case st of (contact, extraNotes) \<Rightarrow>
      if \<not> truthy v then (contact, extraNotes)
      else
        (let normalizedKey = normalizeColumnName key in
         case map_of columnMappings normalizedKey of
           Some fieldName \<Rightarrow>
             (case fieldName of
                K_name \<Rightarrow> (contact\<lparr>name := trim (to_string env v)\<rparr>, extraNotes)
              | K_last_interaction_date \<Rightarrow>
                  (contact\<lparr>last_interaction_date := parseExcelDate env v\<rparr>, extraNotes)
              | K_priority \<Rightarrow> (contact\<lparr>priority := parsePriority env v\<rparr>, extraNotes)
              | K_details \<Rightarrow>
                  (let textValue = trim (to_string env v)
                   in if textValue \<noteq> [] then (contact, extraNotes @ [textValue])
                      else (contact, extraNotes))
              | _ \<Rightarrow>
                  (let stringValue = trim (to_string env v);
                       w = (if stringValue = [] then None else Some stringValue)
                   in (case fieldName of
                         K_email \<Rightarrow> contact\<lparr>email := w\<rparr>
                       | K_phone \<Rightarrow> contact\<lparr>phone := w\<rparr>
                       | K_location \<Rightarrow> contact\<lparr>location := w\<rparr>
                       | K_institution \<Rightarrow> contact\<lparr>institution := w\<rparr>
                       | _ \<Rightarrow> contact,
                       extraNotes)))
         | None \<Rightarrow>
             if normalizedKey \<in> set extraNotesColumns then
               (let textValue = trim (to_string env v)
                in if textValue \<noteq> [] then
                     (contact, extraNotes @ [trim key @ '': '' @ textValue])
                   else (contact, extraNotes))
             else (contact, extraNotes)))"

text \<open>
  One row to one contact. No source sheet is \<open>None\<close>; a sheet name that is the empty
  string is falsy and adds no marker either.
\<close>

definition mapRow :: "engine \<Rightarrow> string option \<Rightarrow> raw_row \<Rightarrow> ImportedContact" where
  "mapRow env sourceSheet row =
     (case fold (map_entry env) row (empty_contact, []) of (contact, extraNotes) \<Rightarrow>
        (let notes = (case sourceSheet of
                        None \<Rightarrow> extraNotes
                      | Some s \<Rightarrow> if s \<noteq> [] then (''['' @ s @ '']'') # extraNotes
                                  else extraNotes)
         in if length notes > 0 then contact\<lparr>details := Some (join [CHR 0x0A] notes)\<rparr>
            else contact))"

definition mapToContacts :: "engine \<Rightarrow> raw_row list \<Rightarrow> string option \<Rightarrow> ImportedContact list" where
  "mapToContacts env rawData sourceSheet = map (mapRow env sourceSheet) rawData"

text \<open>
  The note fragment that one entry of a row contributes, read off the description of the
  row normalizer: a truthy value whose text is not blank gives its trimmed text when the
  header resolves to \<open>details\<close>, and the trimmed header, a colon and the trimmed text when
  the header is an extra-notes column; every other entry gives none. The marker of the
  source sheet comes before the fragments of the entries.
\<close>

definition note_fragment :: "engine \<Rightarrow> string \<times> jsval \<Rightarrow> string list" where
  "note_fragment env kv =
     (case kv of (key, v) \<Rightarrow>
        if truthy v \<and> trim (to_string env v) \<noteq> [] then
          (case column_field key of
             Some fieldName \<Rightarrow> if fieldName = K_details then [trim (to_string env v)] else []
           | None \<Rightarrow>
               if normalizeColumnName key \<in> set extraNotesColumns
               then [trim key @ '': '' @ trim (to_string env v)] else [])
        else [])"

definition sheet_marker :: "string option \<Rightarrow> string list" where
  "sheet_marker sourceSheet =
     (case sourceSheet of None \<Rightarrow> [] | Some s \<Rightarrow> if s \<noteq> [] then [''['' @ s @ '']''] else [])"

subsection \<open>A concrete engine\<close>

text \<open>
  Modelled from the spec: \<open>XLSX.SSF.parse_date_code\<close> is a function of the spreadsheet
  library, which is not part of the repository. The serial date counts days with serial 1
  being 1900-01-01 and serial 60 being the 29th of February 1900, a day that did not
  exist; later serials are one day ahead of the true count. Serials outside 0 to 2958465
  have no date, serial 0 is given as day 0 of January 1900, and the fraction of a day is
  dropped, unless it is within a ten-thousandth of a second of the next day.
\<close>

definition ssf_parse_date_code :: "jsnum \<Rightarrow> (int \<times> int \<times> int) option" where
  "ssf_parse_date_code v =
     (case v of
        NaN \<Rightarrow> Some (1900, 1, 0)
      | PosInf \<Rightarrow> None
      | NegInf \<Rightarrow> None
      | Fin q \<Rightarrow>
          if q > 2958465 \<or> q < 0 then None
          else
            (let date0 = \<lfloor>q\<rfloor>;
                 secs = 86400 * (q - of_int date0);
                 time = \<lfloor>secs\<rfloor>;
                 u = secs - of_int time;
                 date = (if u > 9999 / 10000 \<and> time + 1 = 86400 then date0 + 1 else date0)
             in if date = 60 then Some (1900, 2, 29)
                else if date = 0 then Some (1900, 1, 0)
                else Some (civil_from_days ((if date > 60 then date - 1 else date) - 25568))))"

text \<open>
  The date-only forms \<open>YYYY-MM-DD\<close> of the date-time string format, which the language
  standard reads as midnight UTC. Every other string is taken to be an invalid date here;
  an engine may accept more.
\<close>

definition iso_date_parse :: "string \<Rightarrow> int option" where
  "iso_date_parse s =
     (if length s = 10 \<and> s ! 4 = CHR ''-'' \<and> s ! 7 = CHR ''-''
         \<and> list_all is_digit (take 4 s) \<and> list_all is_digit (take 2 (drop 5 s))
         \<and> list_all is_digit (drop 8 s)
      then
        (let y = digits_value 10 (take 4 s);
             m = digits_value 10 (take 2 (drop 5 s));
             d = digits_value 10 (drop 8 s)
         in if 1 \<le> m \<and> m \<le> 12 \<and> 1 \<le> d \<and> d \<le> 31
               \<and> civil_from_days (days_from_civil y m d) = (y, m, d)
            then Some (days_from_civil y m d * 86400000) else None)
      else None)"

text \<open>Two engines that differ in the time zone only: UTC, and five hours west of it.\<close>

definition engine_utc :: engine where
  "engine_utc = \<lparr>number_to_string = (\<lambda>q. ''?''), date_to_string = (\<lambda>d. ''?''),
     parse_date_code = ssf_parse_date_code, date_parse = iso_date_parse,
     local_offset = (\<lambda>t. 0)\<rparr>"

definition engine_utc_minus_5 :: engine where
  "engine_utc_minus_5 = engine_utc\<lparr>local_offset := (\<lambda>t. - 18000000)\<rparr>"

section \<open>Sheet discovery and selection\<close>

text \<open>
  A parsed workbook: the sheet names in the order of the workbook, and the sheet of each
  name. The sheets themselves and their conversion to rows belong to the spreadsheet
  library; the two ways the source calls the conversion are parameters of the model:
  \<open>to_json_default\<close> for \<open>sheet_to_json(sheet)\<close> and \<open>to_json_raw\<close> for
  \<open>sheet_to_json(sheet, {raw: true, defval: null})\<close>. A file that cannot be read, or
  that the library cannot parse, is a failure of its own.
\<close>

record 'sh workbook =
  SheetNames :: "string list"
  Sheets :: "string \<Rightarrow> 'sh"

datatype 'sh file_data = ReadFails | ParseFails | Workbook "'sh workbook"

record 'sh upload =
  upload_name :: string
  upload_type :: string
  upload_data :: "'sh file_data"

record SheetInfo =
  sname :: string
  rowCount :: nat

definition getExcelSheets :: "('sh \<Rightarrow> raw_row list) \<Rightarrow> 'sh file_data \<Rightarrow> string + SheetInfo list" where
  "getExcelSheets to_json_default file =
     (case file of
        ReadFails \<Rightarrow> Inl ''Failed to read file''
      | ParseFails \<Rightarrow> Inl ''Failed to parse Excel file''
      | Workbook workbook \<Rightarrow>
          Inr (filter (\<lambda>sheet. rowCount sheet > 0)
                (map (\<lambda>n. \<lparr>sname = n,
                            rowCount = length (to_json_default (Sheets workbook n))\<rparr>)
                   (filter (\<lambda>n. toLowerCase n \<noteq> ''definitions'') (SheetNames workbook)))))"

text \<open>
  \<open>parseExcelFile\<close>: the rows of the named sheet; without a name, of the first sheet
  that is not the definitions sheet, or else of the first sheet. A workbook without sheets
  gives no rows.
\<close>

definition parseExcelFile ::
  "('sh \<Rightarrow> raw_row list) \<Rightarrow> 'sh file_data \<Rightarrow> string option \<Rightarrow> string + raw_row list" where
  "parseExcelFile to_json_raw file sheetName =
     (case file of
        ReadFails \<Rightarrow> Inl ''Failed to read file''
      | ParseFails \<Rightarrow> Inl ''Failed to parse Excel file''
      | Workbook workbook \<Rightarrow>
          (let given = (case sheetName of None \<Rightarrow> [] | Some n \<Rightarrow> n);
               targetSheet =
                 (if given \<noteq> [] then Some given
                  else case find (\<lambda>n. toLowerCase n \<noteq> ''definitions'') (SheetNames workbook) of
                         Some n \<Rightarrow> Some n
                       | None \<Rightarrow> (case SheetNames workbook of [] \<Rightarrow> None | n # _ \<Rightarrow> Some n))
           in case targetSheet of
                None \<Rightarrow> Inr []
              | Some n \<Rightarrow> Inr (to_json_raw (Sheets workbook n))))"

definition parseAllSheets ::
  "('sh \<Rightarrow> raw_row list) \<Rightarrow> 'sh file_data \<Rightarrow> string + (string \<times> raw_row list) list" where
  "parseAllSheets to_json_raw file =
     (case file of
        ReadFails \<Rightarrow> Inl ''Failed to read file''
      | ParseFails \<Rightarrow> Inl ''Failed to parse Excel file''
      | Workbook workbook \<Rightarrow>
          Inr (filter (\<lambda>sheet. length (snd sheet) > 0)
                (map (\<lambda>sheetName. (sheetName, to_json_raw (Sheets workbook sheetName)))
                   (filter (\<lambda>n. toLowerCase n \<noteq> ''definitions'') (SheetNames workbook)))))"

text \<open>The state of the import dialog that the two handlers read and set.\<close>

datatype ImportStep = step_upload | step_select_sheets | step_preview | step_importing
  | step_complete

record 'sh dialog =
  step :: ImportStep
  file' :: "'sh upload option"
  sheets :: "SheetInfo list"
  selectedSheets :: "string list"
  previewData :: "ImportedContact list"
  error :: "string option"

definition endsWith :: "string \<Rightarrow> string \<Rightarrow> bool" where
  "endsWith s suffix = (length suffix \<le> length s \<and> drop (length s - length suffix) s = suffix)"

definition validTypes :: "string list" where
  "validTypes =
     [''application/vnd.openxmlformats-officedocument.spreadsheetml.sheet'',
      ''application/vnd.ms-excel'',
      ''text/csv'']"

definition handleFileSelect ::
  "engine \<Rightarrow> ('sh \<Rightarrow> raw_row list) \<Rightarrow> ('sh \<Rightarrow> raw_row list) \<Rightarrow> 'sh upload option
     \<Rightarrow> 'sh dialog \<Rightarrow> 'sh dialog" where
  "handleFileSelect env to_json_default to_json_raw selected st =
     (case selected of
        None \<Rightarrow> st
      | Some selectedFile \<Rightarrow>
          (let isExcel = (endsWith (upload_name selectedFile) ''.xlsx''
                          \<or> endsWith (upload_name selectedFile) ''.xls''
                          \<or> endsWith (upload_name selectedFile) ''.csv''
                          \<or> upload_type selectedFile \<in> set validTypes)
           in if \<not> isExcel then
                st\<lparr>error := Some ''Please upload an Excel file (.xlsx, .xls) or CSV file''\<rparr>
              else
                (let st1 = st\<lparr>error := None, file' := Some selectedFile\<rparr> in
                 case getExcelSheets to_json_default (upload_data selectedFile) of
                   Inl message \<Rightarrow> st1\<lparr>error := Some message\<rparr>
                 | Inr sheetList \<Rightarrow>
                     (case sheetList of
                        [] \<Rightarrow> st1\<lparr>error := Some ''No data sheets found in the file''\<rparr>
                      | [only] \<Rightarrow>
                          (case parseExcelFile to_json_raw (upload_data selectedFile)
                                  (Some (sname only)) of
                             Inl message \<Rightarrow> st1\<lparr>error := Some message\<rparr>
                           | Inr rawData \<Rightarrow>
                               st1\<lparr>previewData := mapToContacts env rawData None,
                                   step := step_preview\<rparr>)
                      | _ \<Rightarrow>
                          st1\<lparr>sheets := sheetList,
                              selectedSheets := map sname sheetList,
                              step := step_select_sheets\<rparr>))))"

definition handleSheetToggle :: "string \<Rightarrow> 'sh dialog \<Rightarrow> 'sh dialog" where
  "handleSheetToggle sheetName st =
     st\<lparr>selectedSheets :=
          (if sheetName \<in> set (selectedSheets st)
           then filter (\<lambda>s. s \<noteq> sheetName) (selectedSheets st)
           else selectedSheets st @ [sheetName])\<rparr>"

definition handleSheetsConfirm ::
  "engine \<Rightarrow> ('sh \<Rightarrow> raw_row list) \<Rightarrow> 'sh dialog \<Rightarrow> 'sh dialog" where
  "handleSheetsConfirm env to_json_raw st =
     (case file' st of
        None \<Rightarrow> st
      | Some f \<Rightarrow>
          if length (selectedSheets st) = 0 then st
          else
            (let st1 = st\<lparr>error := None\<rparr> in
             case parseAllSheets to_json_raw (upload_data f) of
               Inl message \<Rightarrow> st1\<lparr>error := Some message\<rparr>
             | Inr allSheetsData \<Rightarrow>
                 (let filteredData =
                        filter (\<lambda>s. fst s \<in> set (selectedSheets st)) allSheetsData;
                      allContacts =
                        concat (map (\<lambda>(sheetName, data). mapToContacts env data (Some sheetName))
                                  filteredData)
                  in st1\<lparr>previewData := allContacts, step := step_preview\<rparr>)))"

text \<open>The entry of the sheet list for one sheet name.\<close>

definition sheet_info :: "('sh \<Rightarrow> raw_row list) \<Rightarrow> 'sh workbook \<Rightarrow> string \<Rightarrow> SheetInfo" where
  "sheet_info to_json_default wb n =
     \<lparr>sname = n, rowCount = length (to_json_default (Sheets wb n))\<rparr>"

subsection \<open>A concrete workbook\<close>

text \<open>
  Three data sheets, a definitions sheet and an empty sheet; a sheet is given by its
  rows, and both conversions return them.
\<close>

definition demo_workbook :: "raw_row list workbook" where
  "demo_workbook =
     \<lparr>SheetNames = [''LPs'', ''Definitions'', ''Funds'', ''Empty'', ''Banks''],
      Sheets = (\<lambda>n.
        if n = ''LPs'' then [[(''Name'', JStr ''Ann Lee'')], [(''Name'', JStr ''Bo Chan'')]]
        else if n = ''Definitions'' then [[(''Term'', JStr ''LP'')]]
        else if n = ''Funds'' then [[(''Name'', JStr ''Core Fund''), (''Notes'', JStr ''open'')]]
        else if n = ''Banks'' then
          [[(''Name'', JStr ''First Bank'')], [(''Name'', JStr ''Nord Bank'')],
           [(''Name'', JStr ''Sud Bank'')]]
        else [])\<rparr>"

definition demo_upload :: "raw_row list upload" where
  "demo_upload = \<lparr>upload_name = ''contacts.xlsx'', upload_type = [],
     upload_data = Workbook demo_workbook\<rparr>"

definition demo_dialog :: "raw_row list dialog" where
  "demo_dialog = \<lparr>step = step_upload, file' = None, sheets = [], selectedSheets = [],
     previewData = [], error = None\<rparr>"

text \<open>
  The dialog after the workbook was chosen and the sheet \<open>Funds\<close> was deselected, a
  workbook with a single data sheet in a file that is accepted by its declared type
  alone, and a file that is not accepted.
\<close>

definition demo_selected :: "raw_row list dialog" where
  "demo_selected =
     handleSheetToggle ''Funds''
       (handleFileSelect engine_utc (\<lambda>sh. sh) (\<lambda>sh. sh) (Some demo_upload) demo_dialog)"

definition demo_upload_single :: "raw_row list upload" where
  "demo_upload_single = \<lparr>upload_name = ''lps.data'', upload_type = ''application/vnd.ms-excel'',
     upload_data = Workbook (demo_workbook\<lparr>SheetNames := [''Definitions'', ''LPs'']\<rparr>)\<rparr>"

definition demo_upload_text :: "raw_row list upload" where
  "demo_upload_text = \<lparr>upload_name = ''notes.txt'', upload_type = ''text/plain'',
     upload_data = Workbook demo_workbook\<rparr>"

section \<open>Properties of the import orchestrator\<close>

lemma insert_events_append: "insert_events (xs @ ys) = insert_events xs @ insert_events ys"
  by (induction xs rule: insert_events.induct) auto

lemma progress_events_append: "progress_events (xs @ ys) = progress_events xs @ progress_events ys"
  by (induction xs rule: progress_events.induct) auto

lemma length_contactsToInsert: "length (contactsToInsert uid b) = length b"
  by (simp add: contactsToInsert_def)

lemma import_loop_inv:
  "import_loop uid ins valid i (r, d, tr) = (r', d', tr') \<Longrightarrow>
   \<exists>reqs. insert_events tr' = insert_events tr @ reqs \<and>
     map fst reqs = map (contactsToInsert uid) (chunks batchSize (drop i valid)) \<and>
     imported r' = imported r + rows_ok reqs \<and>
     skipped r' = skipped r + rows_failed reqs \<and>
     errors r' = errors r @ batch_errors (i div batchSize) reqs \<and>
     success r' = success r"
proof (induction "length valid - i" arbitrary: i r d tr rule: less_induct)
  case less
  show ?case
  proof (cases "i < length valid")
    case False
    with less.prems show ?thesis
      by (simp add: import_loop.simps chunks.simps)
  next
    case True
    define batch where "batch = take batchSize (drop i valid)"
    define rows where "rows = contactsToInsert uid batch"
    obtain e d1 where ins: "ins d rows = (e, d1)" by (cases "ins d rows")
    define r1 where "r1 = (case e of
        Some message \<Rightarrow> r\<lparr>errors := errors r @ [''Batch '' @ string_of_nat (i div batchSize + 1) @ '' failed: '' @ message],
                         skipped := skipped r + length batch\<rparr>
      | None \<Rightarrow> r\<lparr>imported := imported r + length batch\<rparr>)"
    define tr1 where "tr1 = tr @ [Progress (progress_message i (length valid)) (import_percent i (length batch) (length valid)), Insert rows e]"
    have step: "import_loop uid ins valid i (r, d, tr) = import_loop uid ins valid (i + batchSize) (r1, d1, tr1)"
      using True ins
      by (subst import_loop.simps) (simp add: Let_def batch_def[symmetric] rows_def[symmetric] r1_def tr1_def)
    have "\<exists>reqs. insert_events tr' = insert_events tr1 @ reqs \<and>
     map fst reqs = map (contactsToInsert uid) (chunks batchSize (drop (i + batchSize) valid)) \<and>
     imported r' = imported r1 + rows_ok reqs \<and>
     skipped r' = skipped r1 + rows_failed reqs \<and>
     errors r' = errors r1 @ batch_errors ((i + batchSize) div batchSize) reqs \<and>
     success r' = success r1"
      apply (rule less.hyps)
      using True less.prems step by (simp_all add: tr1_def batchSize_def)
    then obtain reqs where R: "insert_events tr' = insert_events tr1 @ reqs"
     "map fst reqs = map (contactsToInsert uid) (chunks batchSize (drop (i + batchSize) valid))"
     "imported r' = imported r1 + rows_ok reqs"
     "skipped r' = skipped r1 + rows_failed reqs"
     "errors r' = errors r1 @ batch_errors ((i + batchSize) div batchSize) reqs"
     "success r' = success r1" by blast
    have ch: "chunks batchSize (drop i valid) = batch # chunks batchSize (drop (i + batchSize) valid)"
      using True by (subst chunks.simps) (simp add: batch_def batchSize_def add.commute)
    have dv: "(i + batchSize) div batchSize = Suc (i div batchSize)"
      by (simp add: batchSize_def)
    show ?thesis
      apply (rule exI[of _ "(rows, e) # reqs"])
      using R ch dv
      by (cases e) (simp_all add: tr1_def insert_events_append r1_def rows_def length_contactsToInsert)
  qed
qed

lemma concat_chunks: "0 < n \<Longrightarrow> concat (chunks n xs) = xs"
proof (induction n xs rule: chunks.induct)
  case (1 n xs)
  then show ?case by (subst chunks.simps) auto
qed

lemma chunks_lengths: "b \<in> set (chunks n xs) \<Longrightarrow> 0 < length b \<and> length b \<le> n"
proof (induction n xs rule: chunks.induct)
  case (1 n xs)
  from "1.prems" have ne: "\<not> (n = 0 \<or> xs = [])"
    by (subst (asm) chunks.simps) (auto split: if_splits)
  with "1.prems" have "b = take n xs \<or> b \<in> set (chunks n (drop n xs))"
    by (subst (asm) chunks.simps) auto
  then show ?case using "1.IH"[OF ne] ne by auto
qed

lemma chunks_butlast: "b \<in> set (butlast (chunks n xs)) \<Longrightarrow> length b = n"
proof (induction n xs rule: chunks.induct)
  case (1 n xs)
  from "1.prems" have ne: "\<not> (n = 0 \<or> xs = [])"
    by (subst (asm) chunks.simps) (auto split: if_splits)
  have eq: "chunks n xs = take n xs # chunks n (drop n xs)"
    using ne by (subst chunks.simps) simp
  show ?case
  proof (cases "chunks n (drop n xs) = []")
    case True
    with "1.prems" eq show ?thesis by simp
  next
    case False
    then have "drop n xs \<noteq> []" by (subst (asm) chunks.simps) (auto split: if_splits)
    then have len: "n < length xs" by simp
    from "1.prems" eq False have "b = take n xs \<or> b \<in> set (butlast (chunks n (drop n xs)))"
      by auto
    then show ?thesis using "1.IH"[OF ne] len by auto
  qed
qed

lemma chunks_count_step:
  assumes "0 < n" "0 < (l::nat)"
  shows "(l + n - 1) div n = Suc ((l - n + n - 1) div n)"
proof -
  have L: "l + n - 1 = (l - 1) + n" using assms by simp
  have "((l - 1) + n) div n = (l - 1) div n + 1"
    by (rule div_add_self2) (use assms in simp)
  then have lhs: "(l + n - 1) div n = Suc ((l - 1) div n)"
    by (simp only: L Suc_eq_plus1)
  show ?thesis
  proof (cases "n \<le> l")
    case True
    then have "l - n + n - 1 = l - 1" by simp
    with lhs show ?thesis by simp
  next
    case False
    then have "l - n + n - 1 = n - 1" "(l - 1) div n = 0" using assms by simp_all
    with lhs assms show ?thesis by simp
  qed
qed

lemma length_chunks: "0 < n \<Longrightarrow> length (chunks n xs) = (length xs + n - 1) div n"
proof (induction n xs rule: chunks.induct)
  case (1 n xs)
  show ?case
  proof (cases "xs = []")
    case True
    then show ?thesis using "1.prems" by (subst chunks.simps) simp
  next
    case False
    then have ne: "\<not> (n = 0 \<or> xs = [])" using "1.prems" by simp
    have eq: "chunks n xs = take n xs # chunks n (drop n xs)"
      using ne by (subst chunks.simps) simp
    have IH: "length (chunks n (drop n xs)) = (length xs - n + n - 1) div n"
      using "1.IH"[OF ne "1.prems"] by simp
    have "0 < length xs" using False by simp
    from chunks_count_step[OF "1.prems" this] eq IH show ?thesis by simp
  qed
qed

lemma batch_errors_Nil_iff: "batch_errors k reqs = [] \<longleftrightarrow> (\<forall>q\<in>set reqs. snd q = None)"
  by (induction k reqs rule: batch_errors.induct) auto

lemma chunks_120:
  assumes "length xs = 120"
  shows "map length (chunks 50 xs) = [50, 50, 20]"
proof -
  have n: "xs \<noteq> []" "drop 50 xs \<noteq> []" "drop 100 xs \<noteq> []" "drop 150 xs = []"
    using assms by auto
  have "chunks 50 xs = [take 50 xs, take 50 (drop 50 xs), take 50 (drop 100 xs)]"
    using n
    by (simp add: chunks.simps[of 50 xs] chunks.simps[of 50 "drop 50 xs"]
        chunks.simps[of 50 "drop 100 xs"] chunks.simps[of 50 "[]"])
  then show ?thesis using assms by simp
qed

lemma contactsToInsert_concat:
  "concat (map (contactsToInsert uid) xss) = contactsToInsert uid (concat xss)"
  by (induction xss) (simp_all add: contactsToInsert_def)

lemma contactsToInsert_Nil: "contactsToInsert uid b = [] \<longleftrightarrow> b = []"
  by (simp add: contactsToInsert_def)

lemma three_requests:
  assumes "map (length \<circ> fst) reqs = [50, 50, 20]" "map snd reqs = [None, Some m, None]"
  shows "rows_ok reqs = 70 \<and> rows_failed reqs = 50 \<and>
         batch_errors 0 reqs = [''Batch 2 failed: '' @ m]"
proof -
  from assms(1) obtain q1 q2 q3 where q: "reqs = [q1, q2, q3]"
    by (auto simp: map_eq_Cons_conv)
  obtain b1 e1 b2 e2 b3 e3 where p: "q1 = (b1, e1)" "q2 = (b2, e2)" "q3 = (b3, e3)"
    by (cases q1, cases q2, cases q3) auto
  from assms q p show ?thesis
    by (simp add: string_of_nat.simps digit_char_def)
qed

lemma rows_ok_failed: "rows_ok reqs + rows_failed reqs = length (concat (map fst reqs))"
  by (induction reqs rule: rows_ok.induct) auto

lemma importContacts_run:
  assumes "filter (\<lambda>c. trim (name c) \<noteq> []) contacts \<noteq> []"
  shows "\<exists>r db' tr. importContacts (Some uid) ins db contacts = (r, db', tr) \<and>
     map fst (insert_events tr) = map (contactsToInsert uid)
        (chunks batchSize (filter (\<lambda>c. trim (name c) \<noteq> []) contacts)) \<and>
     imported r = rows_ok (insert_events tr) \<and>
     skipped r = rows_failed (insert_events tr)
        + (length contacts - length (filter (\<lambda>c. trim (name c) \<noteq> []) contacts)) \<and>
     errors r = batch_errors 0 (insert_events tr) \<and>
     success r = (batch_errors 0 (insert_events tr) = [])"
proof -
  define valid where "valid = filter (\<lambda>c. trim (name c) \<noteq> []) contacts"
  define init where "init = \<lparr>success = True, imported = 0, skipped = 0, errors = []\<rparr>"
  obtain r1 d1 tr1 where loop: "import_loop uid ins valid 0 (init, db, []) = (r1, d1, tr1)"
    by (cases "import_loop uid ins valid 0 (init, db, [])") auto
  from import_loop_inv[OF loop] obtain reqs where
    R: "insert_events tr1 = reqs"
       "map fst reqs = map (contactsToInsert uid) (chunks batchSize valid)"
       "imported r1 = rows_ok reqs" "skipped r1 = rows_failed reqs"
       "errors r1 = batch_errors 0 reqs" "success r1 = True"
    by (auto simp: init_def)
  define r3 where "r3 = (let r2 = r1\<lparr>skipped := skipped r1 + (length contacts - length valid)\<rparr>
      in if errors r2 \<noteq> [] then r2\<lparr>success := False\<rparr> else r2)"
  have res: "importContacts (Some uid) ins db contacts = (r3, d1, tr1)"
    using assms loop
    by (simp add: importContacts_def valid_def[symmetric] init_def[symmetric] r3_def Let_def)
  have r3: "imported r3 = rows_ok reqs"
    "skipped r3 = rows_failed reqs + (length contacts - length valid)"
    "errors r3 = batch_errors 0 reqs"
    "success r3 = (batch_errors 0 reqs = [])"
    using R by (simp_all add: r3_def Let_def)
  show ?thesis
    using res r3 R(1,2) by (simp add: valid_def)
qed

text \<open>
  C1. Under an authenticated user and with at least one row whose trimmed name is not
  empty, the insert requests of \<open>importContacts\<close> carry the valid rows in order, cut into
  consecutive batches of 50 with only the last one possibly shorter, one request per batch
  whatever the earlier answers were. \<open>imported\<close> counts the rows of the requests that
  succeeded, \<open>skipped\<close> the rows of the failed ones plus the rows without a name, and there
  is one error message per failed request, carrying its batch number. With 120 valid rows
  there are three requests of 50, 50 and 20 rows; if the second one alone fails, the result
  has \<open>imported = 70\<close>, \<open>skipped = 50\<close> plus the nameless rows, the single error
  \<open>Batch 2 failed: ...\<close> and \<open>success = false\<close>.
\<close>

theorem importContacts_batches:
  assumes "filter (\<lambda>c. trim (name c) \<noteq> []) contacts \<noteq> []"
  shows "case importContacts (Some uid) ins db contacts of (r, db', tr) \<Rightarrow>
     (let valid = filter (\<lambda>c. trim (name c) \<noteq> []) contacts; reqs = insert_events tr in
       concat (map fst reqs) = contactsToInsert uid valid \<and>
       length reqs = (length valid + 49) div 50 \<and>
       (\<forall>b\<in>set (butlast (map fst reqs)). length b = 50) \<and>
       (\<forall>b\<in>set (map fst reqs). 0 < length b \<and> length b \<le> 50) \<and>
       imported r = rows_ok reqs \<and>
       skipped r = rows_failed reqs + (length contacts - length valid) \<and>
       errors r = batch_errors 0 reqs \<and>
       success r = (\<forall>q\<in>set reqs. snd q = None) \<and>
       (length valid = 120 \<longrightarrow> map (length \<circ> fst) reqs = [50, 50, 20]) \<and>
       (\<forall>m. length valid = 120 \<and> map snd reqs = [None, Some m, None] \<longrightarrow>
          imported r = 70 \<and> skipped r = 50 + (length contacts - 120) \<and>
          errors r = [''Batch 2 failed: '' @ m] \<and> \<not> success r))"
proof -
  define valid where "valid = filter (\<lambda>c. trim (name c) \<noteq> []) contacts"
  from importContacts_run[OF assms, of uid ins db] obtain r db' tr where
    res: "importContacts (Some uid) ins db contacts = (r, db', tr)"
    and b: "map fst (insert_events tr) = map (contactsToInsert uid) (chunks batchSize valid)"
    and r: "imported r = rows_ok (insert_events tr)"
      "skipped r = rows_failed (insert_events tr) + (length contacts - length valid)"
      "errors r = batch_errors 0 (insert_events tr)"
      "success r = (batch_errors 0 (insert_events tr) = [])"
    unfolding valid_def by blast
  define reqs where "reqs = insert_events tr"
  note b = b[folded reqs_def] and r = r[folded reqs_def]
  have c1: "concat (map fst reqs) = contactsToInsert uid valid"
    unfolding b by (simp add: contactsToInsert_concat concat_chunks batchSize_def)
  have c2: "length reqs = (length valid + 49) div 50"
    using arg_cong[OF b, of length] by (simp add: length_chunks batchSize_def)
  have c3: "\<forall>b\<in>set (butlast (map fst reqs)). length b = 50"
    unfolding b using chunks_butlast[of _ batchSize valid]
    by (auto simp: map_butlast[symmetric] length_contactsToInsert batchSize_def)
  have c4: "\<forall>b\<in>set (map fst reqs). 0 < length b \<and> length b \<le> 50"
    unfolding b using chunks_lengths[of _ batchSize valid]
    by (auto simp: length_contactsToInsert contactsToInsert_Nil batchSize_def)
  have c5: "length valid = 120 \<longrightarrow> map (length \<circ> fst) reqs = [50, 50, 20]"
  proof
    assume "length valid = 120"
    from chunks_120[OF this] have "map length (map fst reqs) = [50, 50, 20]"
      unfolding b by (simp add: comp_def length_contactsToInsert batchSize_def)
    then show "map (length \<circ> fst) reqs = [50, 50, 20]" by simp
  qed
  have c6: "\<forall>m. length valid = 120 \<and> map snd reqs = [None, Some m, None] \<longrightarrow>
          imported r = 70 \<and> skipped r = 50 + (length contacts - 120) \<and>
          errors r = [''Batch 2 failed: '' @ m] \<and> \<not> success r"
  proof (intro allI impI)
    fix m assume a: "length valid = 120 \<and> map snd reqs = [None, Some m, None]"
    with c5 have "map (length \<circ> fst) reqs = [50, 50, 20]" by simp
    from three_requests[OF this] a have
      "rows_ok reqs = 70 \<and> rows_failed reqs = 50 \<and>
       batch_errors 0 reqs = [''Batch 2 failed: '' @ m]"
      by simp
    with r a show "imported r = 70 \<and> skipped r = 50 + (length contacts - 120) \<and>
          errors r = [''Batch 2 failed: '' @ m] \<and> \<not> success r" by simp
  qed
  show ?thesis
    unfolding res
    using c1 c2 c3 c4 c5 c6 r
    by (simp add: valid_def[symmetric] reqs_def[symmetric] batch_errors_Nil_iff Let_def)
qed

lemma demo_valid:
  "filter (\<lambda>c. trim (name c) \<noteq> []) demo_contacts_120 = replicate 120 (demo_contact ''Jane Doe'')"
  by (simp add: demo_contacts_120_def demo_contact_def trim_def is_space_def)

lemma demo_outcomes:
  "map snd (insert_events (snd (snd (importContacts (Some ''u1'') fail_second (0, []) demo_contacts_120))))
    = [None, Some ''timeout'', None]"
  by code_simp

theorem importContacts_batches_witness:
  "filter (\<lambda>c. trim (name c) \<noteq> []) demo_contacts_120 \<noteq> [] \<and>
   (case importContacts (Some ''u1'') fail_second (0, []) demo_contacts_120 of (r, db', tr) \<Rightarrow>
      map (length \<circ> fst) (insert_events tr) = [50, 50, 20] \<and>
      imported r = 70 \<and> skipped r = 53 \<and> errors r = [''Batch 2 failed: timeout''] \<and>
      \<not> success r)"
proof -
  have h: "filter (\<lambda>c. trim (name c) \<noteq> []) demo_contacts_120 \<noteq> []"
    by (simp add: demo_valid)
  have l: "length demo_contacts_120 = 123" by (simp add: demo_contacts_120_def)
  show ?thesis
    using h l demo_outcomes importContacts_batches[OF h, of "''u1''" fail_second "(0, [])"]
    by (auto simp: demo_valid Let_def split: prod.splits)
qed

text \<open>
  C10. Whenever \<open>importContacts\<close> runs under an authenticated user on a list with at least
  one valid row, every input row is counted exactly once, \<open>imported + skipped\<close> being the
  length of the input, and \<open>success\<close> holds exactly when the error list is empty.
\<close>

theorem importContacts_accounting:
  assumes "filter (\<lambda>c. trim (name c) \<noteq> []) contacts \<noteq> []"
  shows "case importContacts (Some uid) ins db contacts of (r, db', tr) \<Rightarrow>
     imported r + skipped r = length contacts \<and> (success r \<longleftrightarrow> errors r = [])"
proof -
  define valid where "valid = filter (\<lambda>c. trim (name c) \<noteq> []) contacts"
  from importContacts_run[OF assms, of uid ins db] obtain r db' tr where
    res: "importContacts (Some uid) ins db contacts = (r, db', tr)"
    and b: "map fst (insert_events tr) = map (contactsToInsert uid) (chunks batchSize valid)"
    and i: "imported r = rows_ok (insert_events tr)"
    and s: "skipped r = rows_failed (insert_events tr) + (length contacts - length valid)"
    and e: "errors r = batch_errors 0 (insert_events tr)"
    and ok: "success r = (batch_errors 0 (insert_events tr) = [])"
    unfolding valid_def by blast
  have "rows_ok (insert_events tr) + rows_failed (insert_events tr) = length valid"
    unfolding rows_ok_failed b
    by (simp add: contactsToInsert_concat length_contactsToInsert concat_chunks batchSize_def)
  moreover have "length valid \<le> length contacts"
    by (simp add: valid_def)
  ultimately have "imported r + skipped r = length contacts"
    using i s by simp
  then show ?thesis
    unfolding res using e ok by simp
qed

theorem importContacts_accounting_witness:
  "filter (\<lambda>c. trim (name c) \<noteq> []) demo_contacts_120 \<noteq> [] \<and>
   (case importContacts (Some ''u1'') fail_second (0, []) demo_contacts_120 of (r, db', tr) \<Rightarrow>
      imported r + skipped r = 123 \<and> (success r \<longleftrightarrow> errors r = []))"
proof -
  have h: "filter (\<lambda>c. trim (name c) \<noteq> []) demo_contacts_120 \<noteq> []"
    by (simp add: demo_valid)
  have l: "length demo_contacts_120 = 123" by (simp add: demo_contacts_120_def)
  show ?thesis
    using h l importContacts_accounting[OF h, of "''u1''" fail_second "(0, [])"]
    by (auto split: prod.splits)
qed

text \<open>
  C9. Without an authenticated user the import returns \<open>success = false\<close>,
  \<open>imported = 0\<close> and the error \<open>Not authenticated\<close>; when every row has an empty trimmed
  name it returns \<open>success = false\<close>, \<open>imported = 0\<close> and the error
  \<open>No valid contacts found (name is required)\<close>. In both cases the store is returned as it
  was and no event, hence no insert request, is issued. These are the only two such cases:
  with a user and a valid row at least one insert request is issued.
\<close>

theorem importContacts_terminal:
  "importContacts None ins db contacts =
     (\<lparr>success = False, imported = 0, skipped = 0, errors = [''Not authenticated'']\<rparr>, db, []) \<and>
   ((\<forall>c\<in>set contacts. trim (name c) = []) \<longrightarrow>
      importContacts (Some uid) ins db contacts =
        (\<lparr>success = False, imported = 0, skipped = 0,
          errors = [''No valid contacts found (name is required)'']\<rparr>, db, [])) \<and>
   (\<not> (\<forall>c\<in>set contacts. trim (name c) = []) \<longrightarrow>
      insert_events (snd (snd (importContacts (Some uid) ins db contacts))) \<noteq> [])"
proof (intro conjI impI)
  show "importContacts None ins db contacts =
     (\<lparr>success = False, imported = 0, skipped = 0, errors = [''Not authenticated'']\<rparr>, db, [])"
    by (simp add: importContacts_def)
next
  assume "\<forall>c\<in>set contacts. trim (name c) = []"
  then have "filter (\<lambda>c. trim (name c) \<noteq> []) contacts = []"
    by (simp add: filter_empty_conv)
  then show "importContacts (Some uid) ins db contacts =
        (\<lparr>success = False, imported = 0, skipped = 0,
          errors = [''No valid contacts found (name is required)'']\<rparr>, db, [])"
    by (simp add: importContacts_def)
next
  assume "\<not> (\<forall>c\<in>set contacts. trim (name c) = [])"
  then have ne: "filter (\<lambda>c. trim (name c) \<noteq> []) contacts \<noteq> []"
    by (simp add: filter_empty_conv)
  from importContacts_run[OF ne, of uid ins db] obtain r db' tr where
    res: "importContacts (Some uid) ins db contacts = (r, db', tr)"
    and b: "map fst (insert_events tr) = map (contactsToInsert uid)
        (chunks batchSize (filter (\<lambda>c. trim (name c) \<noteq> []) contacts))"
    by blast
  have "chunks batchSize (filter (\<lambda>c. trim (name c) \<noteq> []) contacts) \<noteq> []"
    using ne by (subst chunks.simps) (simp add: batchSize_def)
  with b have "insert_events tr \<noteq> []" by auto
  then show "insert_events (snd (snd (importContacts (Some uid) ins db contacts))) \<noteq> []"
    by (simp add: res)
qed

theorem importContacts_terminal_witness:
  "trim (name (demo_contact ''  '')) = [] \<and> trim (name (demo_contact [])) = [] \<and>
   importContacts (Some ''u1'') fail_second (0, []) [demo_contact ''  '', demo_contact []] =
     (\<lparr>success = False, imported = 0, skipped = 0,
       errors = [''No valid contacts found (name is required)'']\<rparr>, (0, []), []) \<and>
   trim (name (demo_contact ''Jane Doe'')) \<noteq> [] \<and>
   insert_events (snd (snd (importContacts (Some ''u1'') fail_second (0, [])
       [demo_contact ''  '', demo_contact ''Jane Doe'']))) \<noteq> []"
proof -
  have a: "trim (name (demo_contact ''  '')) = []" "trim (name (demo_contact [])) = []"
    by (simp_all add: demo_contact_def trim_def is_space_def)
  have b: "trim (name (demo_contact ''Jane Doe'')) \<noteq> []"
    by (simp add: demo_contact_def trim_def is_space_def)
  show ?thesis
    using a b
      importContacts_terminal[of fail_second "(0, [])"
        "[demo_contact ''  '', demo_contact []]" "''u1''"]
      importContacts_terminal[of fail_second "(0, [])"
        "[demo_contact ''  '', demo_contact ''Jane Doe'']" "''u1''"]
    by simp
qed

subsection \<open>Progress of the import\<close>

text \<open>
  Within one run of \<open>importContacts\<close> the percents handed to the progress callback are
  integers between 0 and 100 and never decrease. This is shown for the percents as the
  model computes them, in exact arithmetic.
\<close>

lemma js_round_mono: "x \<le> y \<Longrightarrow> js_round x \<le> js_round y"
  by (simp add: js_round_def floor_mono)

lemma js_round_bounds: "0 \<le> x \<Longrightarrow> x \<le> 100 \<Longrightarrow> 0 \<le> js_round x \<and> js_round x \<le> 100"
  unfolding js_round_def by (simp add: floor_le_iff le_floor_iff)

lemma percent_upto_mono: "i \<le> j \<Longrightarrow> percent_upto i n \<le> percent_upto j n"
  unfolding percent_upto_def
  by (intro js_round_mono mult_right_mono divide_right_mono) simp_all

lemma percent_upto_bounds: "0 \<le> percent_upto i n \<and> percent_upto i n \<le> 100"
proof (cases "n = 0")
  case True
  then show ?thesis by (simp add: percent_upto_def js_round_def)
next
  case False
  define q where "q = (of_nat (min i n) :: rat) / of_nat n"
  have "(of_nat (min i n) :: rat) \<le> of_nat n" by simp
  then have q1: "q \<le> 1" using False by (simp add: q_def divide_le_eq_1)
  have q0: "0 \<le> q" by (simp add: q_def)
  have "0 \<le> q * 100" "q * 100 \<le> 100" using q0 q1 by simp_all
  then show ?thesis
    unfolding percent_upto_def q_def[symmetric] by (rule js_round_bounds)
qed

lemma import_loop_progress:
  "import_loop uid ins valid i (r, d, tr) = (r', d', tr') \<Longrightarrow>
   sorted (progress_events tr) \<Longrightarrow>
   \<forall>p\<in>set (progress_events tr). 0 \<le> p \<and> p \<le> percent_upto i (length valid) \<Longrightarrow>
   sorted (progress_events tr') \<and> (\<forall>p\<in>set (progress_events tr'). 0 \<le> p \<and> p \<le> 100)"
proof (induction "length valid - i" arbitrary: i r d tr rule: less_induct)
  case less
  show ?case
  proof (cases "i < length valid")
    case False
    with less.prems(1) have "tr' = tr" by (simp add: import_loop.simps)
    moreover have "percent_upto i (length valid) \<le> 100" using percent_upto_bounds by blast
    ultimately show ?thesis using less.prems(2,3) by fastforce
  next
    case True
    define batch where "batch = take batchSize (drop i valid)"
    define rows where "rows = contactsToInsert uid batch"
    obtain e d1 where ins: "ins d rows = (e, d1)" by (cases "ins d rows")
    define r1 where "r1 = (case e of
        Some message \<Rightarrow> r\<lparr>errors := errors r @ [''Batch '' @ string_of_nat (i div batchSize + 1) @ '' failed: '' @ message],
                         skipped := skipped r + length batch\<rparr>
      | None \<Rightarrow> r\<lparr>imported := imported r + length batch\<rparr>)"
    define pc where "pc = import_percent i (length batch) (length valid)"
    define tr1 where "tr1 = tr @ [Progress (progress_message i (length valid)) pc, Insert rows e]"
    have step: "import_loop uid ins valid i (r, d, tr) = import_loop uid ins valid (i + batchSize) (r1, d1, tr1)"
      using True ins
      by (subst import_loop.simps) (simp add: Let_def batch_def[symmetric] rows_def[symmetric] r1_def tr1_def pc_def)
    have "i + length batch = min (i + batchSize) (length valid)"
      using True by (auto simp: batch_def min_def)
    then have pc: "pc = percent_upto (i + batchSize) (length valid)"
      by (simp add: pc_def import_percent_def percent_upto_def)
    have ge: "percent_upto i (length valid) \<le> pc"
      unfolding pc by (rule percent_upto_mono) simp
    have pe: "progress_events tr1 = progress_events tr @ [pc]"
      by (simp add: tr1_def progress_events_append)
    have s1: "sorted (progress_events tr1)"
      unfolding pe using less.prems(2,3) ge by (fastforce simp: sorted_append)
    have b1: "\<forall>p\<in>set (progress_events tr1). 0 \<le> p \<and> p \<le> percent_upto (i + batchSize) (length valid)"
      unfolding pe using less.prems(3) ge pc percent_upto_bounds[of "i + batchSize" "length valid"]
      by fastforce
    show ?thesis
      apply (rule less.hyps[of "i + batchSize" r1 d1 tr1])
      using True less.prems(1) step s1 b1 by (simp_all add: batchSize_def)
  qed
qed

lemma importContacts_progress:
  "sorted (progress_events (snd (snd (importContacts user ins db contacts)))) \<and>
   (\<forall>p\<in>set (progress_events (snd (snd (importContacts user ins db contacts)))). 0 \<le> p \<and> p \<le> 100)"
proof (cases user)
  case None
  then show ?thesis by (simp add: importContacts_def)
next
  case (Some uid)
  define valid where "valid = filter (\<lambda>c. trim (name c) \<noteq> []) contacts"
  define init where "init = \<lparr>success = True, imported = 0, skipped = 0, errors = []\<rparr>"
  show ?thesis
  proof (cases "valid = []")
    case True
    then show ?thesis using Some by (simp add: importContacts_def valid_def)
  next
    case False
    obtain r1 d1 tr1 where loop: "import_loop uid ins valid 0 (init, db, []) = (r1, d1, tr1)"
      by (cases "import_loop uid ins valid 0 (init, db, [])") auto
    have "sorted (progress_events tr1) \<and> (\<forall>p\<in>set (progress_events tr1). 0 \<le> p \<and> p \<le> 100)"
      by (rule import_loop_progress[OF loop]) simp_all
    moreover have "snd (snd (importContacts user ins db contacts)) = tr1"
      using Some False loop
      by (simp add: importContacts_def valid_def[symmetric] init_def[symmetric] Let_def)
    ultimately show ?thesis by simp
  qed
qed

section \<open>Properties of the export orchestrator\<close>

text \<open>
  C2. The claim asks that in every run of either pipeline the percents handed to the
  progress callback lie between 0 and 100 and never decrease. For the import this is
  \<open>importContacts_progress\<close>, in exact arithmetic. The export computes the percent of
  a download from \<open>i * contact.attachments.length + j\<close>, which is not the number of
  downloads done so far: with a first contact without attachments and a second contact
  with two, all downloads succeeding, the callback receives 5, 15, 25, 90, 120, 95, 100.
\<close>

theorem exportAllData_progress_trace:
  "map snd (fst (exportAllData (\<lambda>s. s) (\<lambda>s. s) ''2026-01-01''
         (Inr (Some [mk_contact ''c0'' ''Acme Fund'', mk_contact ''c1'' ''Beta: Capital'']))
         (Inr (Some [mk_attachment ''c1'' ''deck.pdf'' ''p1'',
                     mk_attachment ''c1'' ''terms.pdf'' ''p2'']))
         (\<lambda>p. Downloaded p))) = [5, 15, 25, 90, 120, 95, 100]"
  by code_simp

text \<open>
  C7. The claim asks for one entry per successfully downloaded attachment in the folder
  of the contact. Each download is placed under the sanitized original file name alone, so
  two attachments of one contact with the same file name end in one entry: with the
  attachments \<open>deck.pdf\<close> stored at \<open>p1\<close> and \<open>deck.pdf\<close> stored at \<open>p2\<close>, both
  downloads succeeding, the folder holds the single entry \<open>deck.pdf\<close> with the second
  content, while the sheet reports a files count of 2.
\<close>

theorem exportAllData_same_file_name:
  "snd (exportAllData (\<lambda>s. s) (\<lambda>s. s) ''2026-01-01''
         (Inr (Some [mk_contact ''c1'' ''Ann Lee'']))
         (Inr (Some [mk_attachment ''c1'' ''deck.pdf'' ''p1'',
                     mk_attachment ''c1'' ''deck.pdf'' ''p2'']))
         (\<lambda>p. Downloaded p)) =
   Inr (''IR_CRM_Backup_2026-01-01.zip'',
        [(''Contacts.xlsx'',
          Sheet [\<lparr>Num = 1, Name = ''Ann Lee'', Institution = [], Email = [], Phone = [],
                   Location = [], Priority = None, Last_Interaction = [], Notes = [],
                   Files_Count = 2, File_Names = ''deck.pdf, deck.pdf'',
                   Created = ''2025-01-01T00:00:00Z'',
                   Updated = ''2025-01-02T00:00:00Z''\<rparr>]),
         (''Attachments/'', Dir),
         (''Attachments/Ann Lee/'', Dir),
         (''Attachments/Ann Lee/deck.pdf'', Blob ''p2'')])"
  by code_simp

section \<open>Properties of the column mapper and the row normalizer\<close>

subsection \<open>Normalization of headers\<close>

lemma of_char_lower_char:
  "(of_char (lower_char c) :: nat) =
     (let n = of_char c in
      if (65 \<le> n \<and> n \<le> 90) \<or> (192 \<le> n \<and> n \<le> 222 \<and> n \<noteq> 215) then n + 32 else n)"
proof -
  have "(of_char c :: nat) < 256" by simp
  then show ?thesis
    by (auto simp: lower_char_def Let_def)
qed

lemma lower_char_idem: "lower_char (lower_char c) = lower_char c"
proof -
  have "(of_char (lower_char (lower_char c)) :: nat) = of_char (lower_char c)"
    by (auto simp: of_char_lower_char Let_def)
  then show ?thesis by (simp only: of_char_eq_iff)
qed

lemma is_space_lower_char: "is_space (lower_char c) = is_space c"
  by (auto simp: is_space_def of_char_lower_char Let_def)

lemma underscore_lower_char: "(lower_char c = CHR ''_'') = (c = CHR ''_'')"
proof -
  have e: "(d = CHR ''_'') = ((of_char d :: nat) = 95)" for d
  proof -
    have "(of_char (CHR ''_'') :: nat) = 95" by simp
    then show ?thesis by (metis of_char_eq_iff)
  qed
  show ?thesis unfolding e by (auto simp: of_char_lower_char Let_def)
qed

lemma filter_dropWhile_neg:
  "(\<And>x. Q x \<Longrightarrow> \<not> P x) \<Longrightarrow> filter P (dropWhile Q xs) = filter P xs"
  by (induction xs) auto

lemma filter_trim:
  "(\<And>x. is_space x \<Longrightarrow> \<not> P x) \<Longrightarrow> filter P (trim xs) = filter P xs"
  by (simp add: trim_def filter_dropWhile_neg rev_filter[symmetric])

lemma normalizeColumnName_eq:
  "normalizeColumnName n = filter (\<lambda>c. \<not> (c = CHR ''_'' \<or> is_space c)) (map lower_char n)"
  by (simp add: normalizeColumnName_def toLowerCase_def filter_trim)

lemma normalizeColumnName_idem:
  "normalizeColumnName (normalizeColumnName n) = normalizeColumnName n"
proof -
  have "filter (\<lambda>c. \<not> (c = CHR ''_'' \<or> is_space c))
          (map lower_char (filter (\<lambda>c. \<not> (c = CHR ''_'' \<or> is_space c)) (map lower_char xs)))
        = filter (\<lambda>c. \<not> (c = CHR ''_'' \<or> is_space c)) (map lower_char xs)" for xs
    by (induction xs)
       (simp_all add: lower_char_idem is_space_lower_char underscore_lower_char)
  then show ?thesis by (simp add: normalizeColumnName_eq)
qed

lemma map_entry_cong_key:
  assumes "normalizeColumnName k1 = normalizeColumnName k2" "column_field k1 \<noteq> None"
  shows "map_entry env (k1, v) st = map_entry env (k2, v) st"
proof -
  obtain f where "map_of columnMappings (normalizeColumnName k1) = Some f"
    using assms(2) by (auto simp: column_field_def)
  then show ?thesis using assms(1)
    by (cases st) (simp add: map_entry_def Let_def)
qed

text \<open>
  C6. The column mapper looks the normalized header up as it is: the normalized key is
  the header with its letters in lower case and every underscore and white space
  character removed, normalizing twice changes nothing, and headers with the same
  normalized key resolve to the same field and, when that field exists, are treated alike
  by the row normalizer. \<open>"  Full_Name "\<close> and \<open>"fullname"\<close> both resolve to \<open>name\<close>, and
  the row \<open>{Name: "Jane Doe", Company: "Acme", Priorty: "2"}\<close> maps to the contact with
  name \<open>Jane Doe\<close>, institution \<open>Acme\<close> and priority 2, every other field absent.
\<close>

theorem column_mapper_normalized:
  "normalizeColumnName key
     = filter (\<lambda>c. \<not> (c = CHR ''_'' \<or> is_space c)) (map lower_char key) \<and>
   column_field (normalizeColumnName key) = column_field key \<and>
   (normalizeColumnName k1 = normalizeColumnName k2 \<longrightarrow> column_field k1 = column_field k2) \<and>
   (normalizeColumnName k1 = normalizeColumnName k2 \<and> column_field k1 \<noteq> None \<longrightarrow>
      map_entry env (k1, v) st = map_entry env (k2, v) st) \<and>
   column_field ''  Full_Name '' = Some K_name \<and>
   column_field ''fullname'' = Some K_name \<and>
   mapToContacts env
     [[(''Name'', JStr ''Jane Doe''), (''Company'', JStr ''Acme''), (''Priorty'', JStr ''2'')]]
     None
   = [\<lparr>name = ''Jane Doe'', email = None, phone = None, location = None, details = None,
       institution = Some ''Acme'', last_interaction_date = None, priority = Some (Fin 2)\<rparr>]"
proof (intro conjI impI)
  show "normalizeColumnName key
     = filter (\<lambda>c. \<not> (c = CHR ''_'' \<or> is_space c)) (map lower_char key)"
    by (rule normalizeColumnName_eq)
  show "column_field (normalizeColumnName key) = column_field key"
    by (simp add: column_field_def normalizeColumnName_idem)
  show "column_field k1 = column_field k2" if "normalizeColumnName k1 = normalizeColumnName k2"
    using that by (simp add: column_field_def)
  show "map_entry env (k1, v) st = map_entry env (k2, v) st"
    if "normalizeColumnName k1 = normalizeColumnName k2 \<and> column_field k1 \<noteq> None"
    using that map_entry_cong_key by blast
  show "column_field ''  Full_Name '' = Some K_name"
    by code_simp
  show "column_field ''fullname'' = Some K_name"
    by code_simp
  show "mapToContacts env
     [[(''Name'', JStr ''Jane Doe''), (''Company'', JStr ''Acme''), (''Priorty'', JStr ''2'')]]
     None
   = [\<lparr>name = ''Jane Doe'', email = None, phone = None, location = None, details = None,
       institution = Some ''Acme'', last_interaction_date = None, priority = Some (Fin 2)\<rparr>]"
    by code_simp
qed

theorem column_mapper_normalized_witness:
  "normalizeColumnName ''  Full_Name '' = normalizeColumnName ''fullname'' \<and>
   column_field ''  Full_Name '' \<noteq> None \<and>
   column_field ''  Full_Name '' = column_field ''fullname'' \<and>
   map_entry engine_utc (''  Full_Name '', JStr ''Jane Doe'') (empty_contact, [])
     = map_entry engine_utc (''fullname'', JStr ''Jane Doe'') (empty_contact, [])"
proof -
  have n: "normalizeColumnName ''  Full_Name '' = normalizeColumnName ''fullname''"
    by code_simp
  have f: "column_field ''  Full_Name '' \<noteq> None"
    by code_simp
  show ?thesis
    using n f
      column_mapper_normalized[of "''  Full_Name ''" "''  Full_Name ''" "''fullname''"
        engine_utc "JStr ''Jane Doe''" "(empty_contact, [])"]
    by simp
qed

subsection \<open>Accumulation of note fragments\<close>

lemma map_entry_fragment:
  "\<exists>c'. map_entry env kv (c, ns) = (c', ns @ note_fragment env kv) \<and> details c' = details c"
proof (cases kv)
  case (Pair key v)
  show ?thesis
  proof (cases "map_of columnMappings (normalizeColumnName key)")
    case None
    then show ?thesis using Pair
      by (simp add: map_entry_def note_fragment_def column_field_def Let_def)
  next
    case (Some f)
    then show ?thesis using Pair
      by (cases f) (simp_all add: map_entry_def note_fragment_def column_field_def Let_def)
  qed
qed

lemma fold_map_entry:
  "\<exists>c'. fold (map_entry env) row (c, ns) = (c', ns @ concat (map (note_fragment env) row))
        \<and> details c' = details c"
proof (induction row arbitrary: c ns)
  case Nil
  then show ?case by simp
next
  case (Cons kv row)
  from map_entry_fragment[of env kv c ns] obtain c1 where
    s: "map_entry env kv (c, ns) = (c1, ns @ note_fragment env kv)" "details c1 = details c"
    by blast
  from Cons.IH[of c1 "ns @ note_fragment env kv"] s show ?case by auto
qed

lemma mapRow_details:
  "details (mapRow env sourceSheet row) =
     (let fragments = sheet_marker sourceSheet @ concat (map (note_fragment env) row)
      in if fragments = [] then None else Some (join [CHR 0x0A] fragments))"
proof -
  from fold_map_entry[of env row empty_contact "[]"] obtain c' where
    f: "fold (map_entry env) row (empty_contact, []) = (c', concat (map (note_fragment env) row))"
    and d: "details c' = None"
    by (auto simp: empty_contact_def)
  show ?thesis
    using d by (cases sourceSheet) (simp_all add: mapRow_def f sheet_marker_def Let_def)
qed

text \<open>
  C5. \<open>mapToContacts\<close> yields one contact per raw row. The \<open>details\<close> of each is built
  from the note fragments of the row in the order of its entries: every entry whose header
  resolves to \<open>details\<close> contributes its trimmed text, every extra-notes entry contributes
  the trimmed original header, a colon and the trimmed text, and no entry overwrites
  another. A supplied sheet name puts \<open>[name]\<close> before them. The fragments are joined by
  newline, and \<open>details\<close> is absent when there is none.
\<close>

theorem mapToContacts_details:
  "length (mapToContacts env rawData sourceSheet) = length rawData \<and>
   map details (mapToContacts env rawData sourceSheet)
     = map (\<lambda>row. let fragments = sheet_marker sourceSheet
                                     @ concat (map (note_fragment env) row)
                   in if fragments = [] then None else Some (join [CHR 0x0A] fragments))
           rawData \<and>
   (\<forall>s. sourceSheet = Some s \<and> s \<noteq> [] \<longrightarrow> sheet_marker sourceSheet = [''['' @ s @ '']''])"
  by (simp add: mapToContacts_def mapRow_details sheet_marker_def)

theorem mapToContacts_details_witness:
  "Some ''LPs'' = Some ''LPs'' \<and> ''LPs'' \<noteq> [] \<and>
   sheet_marker (Some ''LPs'') = [''[LPs]''] \<and>
   map details (mapToContacts engine_utc
       [[(''Name'', JStr ''Jane Doe''), (''Notes'', JStr '' met in May ''),
         (''Documents Provided '', JStr ''deck''), (''Comments'', JNum (Fin 12)),
         (''Description'', JStr ''  ''), (''Note'', JNum (Fin 0))],
        [(''Name'', JStr ''John Roe'')]]
       (Some ''LPs''))
     = [Some (''[LPs]'' @ [CHR 0x0A] @ ''met in May'' @ [CHR 0x0A]
               @ ''Documents Provided: deck'' @ [CHR 0x0A] @ ''12''),
        Some ''[LPs]'']"
proof -
  have e: "map (\<lambda>row. let fragments = sheet_marker (Some ''LPs'')
                                     @ concat (map (note_fragment engine_utc) row)
                   in if fragments = [] then None else Some (join [CHR 0x0A] fragments))
       [[(''Name'', JStr ''Jane Doe''), (''Notes'', JStr '' met in May ''),
         (''Documents Provided '', JStr ''deck''), (''Comments'', JNum (Fin 12)),
         (''Description'', JStr ''  ''), (''Note'', JNum (Fin 0))],
        [(''Name'', JStr ''John Roe'')]]
     = [Some (''[LPs]'' @ [CHR 0x0A] @ ''met in May'' @ [CHR 0x0A]
               @ ''Documents Provided: deck'' @ [CHR 0x0A] @ ''12''),
        Some ''[LPs]'']"
    by code_simp
  show ?thesis
    using mapToContacts_details[of engine_utc
       "[[(''Name'', JStr ''Jane Doe''), (''Notes'', JStr '' met in May ''),
         (''Documents Provided '', JStr ''deck''), (''Comments'', JNum (Fin 12)),
         (''Description'', JStr ''  ''), (''Note'', JNum (Fin 0))],
        [(''Name'', JStr ''John Roe'')]]" "Some ''LPs''"]
    by (simp only: e) simp
qed

subsection \<open>The priority normalizer\<close>

lemma parseInt_cases: "parseInt s = NaN \<or> (\<exists>k. parseInt s = Fin (of_int k))"
proof -
  obtain sign s1 where a: "(case dropWhile is_space s of
                          [] \<Rightarrow> (1 :: int, dropWhile is_space s)
                        | c # r \<Rightarrow> if c = CHR ''-'' then (- 1, r)
                                   else if c = CHR ''+'' then (1, r) else (1, dropWhile is_space s)) = (sign, s1)"
    by (rule prod.exhaust)
  obtain radix s2 where b: "(if take 2 s1 = ''0x'' \<or> take 2 s1 = ''0X'' then (16 :: int, drop 2 s1)
                         else (10, s1)) = (radix, s2)"
    by (rule prod.exhaust)
  define z where "z = takeWhile (\<lambda>c. digit_val radix c \<noteq> None) s2"
  have eq: "parseInt s = (if z = [] then NaN else Fin (of_int (sign * digits_value radix z)))"
    by (simp only: parseInt_def Let_def a b prod.case z_def)
  show ?thesis
  proof (cases "z = []")
    case True
    with eq show ?thesis by simp
  next
    case False
    with eq have "parseInt s = Fin (of_int (sign * digits_value radix z))"
      by (simp only: if_False)
    then show ?thesis by blast
  qed
qed

lemma parsePriority_falsy: "\<not> truthy v \<Longrightarrow> parsePriority env v = None"
  by (simp add: parsePriority_def)

lemma parsePriority_sentinel:
  "v = JStr ''N/A'' \<or> v = JStr ''n/a'' \<or> v = JStr ''-'' \<Longrightarrow> parsePriority env v = None"
  by (auto simp: parsePriority_def)

lemma parsePriority_integer:
  "parsePriority env (JNum (Fin (of_int k)))
     = (if 1 \<le> k \<and> k \<le> 5 then Some (Fin (of_int k)) else None)"
  by (auto simp: parsePriority_def)

lemma parsePriority_text:
  assumes "\<And>n. v \<noteq> JNum n" "parsePriority env v = Some r"
  shows "\<exists>k. 1 \<le> k \<and> k \<le> 5 \<and> r = Fin (of_int k)"
proof -
  from assms have r: "r = parseInt (trim (to_string env v))"
    and ok: "r \<noteq> NaN" "\<not> js_less r (Fin 1)" "\<not> js_less (Fin 5) r"
    by (cases v; auto simp: parsePriority_def Let_def split: if_splits)+
  from parseInt_cases[of "trim (to_string env v)"] r ok(1) obtain k where k: "r = Fin (of_int k)"
    by auto
  with ok(2,3) have "1 \<le> k \<and> k \<le> 5" by simp
  with k show ?thesis by blast
qed

text \<open>
  C3. The claim asks that a result of \<open>parsePriority\<close>, when present, is one of the
  integers 1 to 5. A cell that holds a number is not passed through \<open>parseInt\<close>: it is
  only compared with 1 and 5, so the numeric cell 2.5 comes back as the priority 2.5. The
  other parts of the claim hold: falsy values and the sentinels give nothing
  (\<open>parsePriority_falsy\<close>, \<open>parsePriority_sentinel\<close>), an integer is kept exactly when it is
  between 1 and 5 (\<open>parsePriority_integer\<close>), and a value that is not a number gives an
  integer from 1 to 5 or nothing (\<open>parsePriority_text\<close>).
\<close>

theorem parsePriority_fraction:
  "parsePriority env (JNum (Fin (5 / 2))) = Some (Fin (5 / 2))"
  by (simp add: parsePriority_def)

section \<open>Properties of sheet discovery and selection\<close>

lemma getExcelSheets_eq:
  "getExcelSheets td (Workbook wb) =
     Inr (map (sheet_info td wb)
            (filter (\<lambda>n. toLowerCase n \<noteq> ''definitions'' \<and> 0 < length (td (Sheets wb n)))
               (SheetNames wb)))"
  by (simp add: getExcelSheets_def sheet_info_def filter_map comp_def)

lemma parseAllSheets_eq:
  assumes "\<And>sh. length (tr sh) = length (td sh)"
  shows "parseAllSheets tr (Workbook wb) =
     Inr (map (\<lambda>n. (n, tr (Sheets wb n)))
            (filter (\<lambda>n. toLowerCase n \<noteq> ''definitions'' \<and> 0 < length (td (Sheets wb n)))
               (SheetNames wb)))"
proof -
  have "(tr sh = []) = (td sh = [])" for sh
    using assms[of sh] by (metis length_0_conv)
  then show ?thesis
    by (simp add: parseAllSheets_def filter_map comp_def)
qed

lemma join_Cons: "\<exists>rest. join sep (m # frs) = m @ rest"
  by (cases frs) auto

lemma mapToContacts_marker:
  assumes "n \<noteq> []" "c \<in> set (mapToContacts env rows (Some n))"
  shows "\<exists>rest. details c = Some (''['' @ n @ '']'' @ rest)"
proof -
  from assms(2) obtain row where c: "c = mapRow env (Some n) row"
    by (auto simp: mapToContacts_def)
  obtain rest where "join [CHR 0x0A] ((''['' @ n @ '']'') # concat (map (note_fragment env) row))
      = (''['' @ n @ '']'') @ rest"
    using join_Cons by blast
  then show ?thesis
    using assms(1) by (simp add: c mapRow_details sheet_marker_def)
qed

lemma length_concat_mapToContacts:
  "length (concat (map (\<lambda>n. mapToContacts env (tr (Sheets wb n)) (Some n)) ns))
     = sum_list (map (\<lambda>n. length (tr (Sheets wb n))) ns)"
  by (induction ns) (simp_all add: mapToContacts_def)

text \<open>
  C8. For a workbook that parses, whose two conversions to rows agree on the number of
  rows of every sheet and whose sheet names are not empty: sheet discovery returns, in
  workbook order and with their row counts, exactly the sheets whose lower-cased name is
  not \<open>definitions\<close> and that have at least one row. Choosing a file passes the
  acceptance test of the dialog when its name ends in \<open>.xlsx\<close>, \<open>.xls\<close> or \<open>.csv\<close>
  or its declared type is one of the three spreadsheet types; a file that fails the test
  is refused with a message and nothing is parsed. When an accepted file has one
  qualifying sheet, that sheet is parsed and the dialog goes to the preview, with no
  sheet selection. Confirming a non-empty selection goes to the preview with the contacts
  of the selected sheets in sheet order; their number is the sum of the row counts of the
  selected sheets, and the details of each contact begin with the name of its sheet in
  brackets.
\<close>

theorem sheet_discovery:
  assumes counts: "\<And>sh. length (to_json_raw sh) = length (to_json_default sh)"
    and names: "[] \<notin> set (SheetNames wb)"
    and data: "upload_data f = Workbook wb"
    and cur: "file' st = Some f"
    and sel: "selectedSheets st \<noteq> []"
  shows
    "(\<exists>sheetList.
        getExcelSheets to_json_default (upload_data f) = Inr sheetList \<and>
        sheetList = map (\<lambda>n. \<lparr>sname = n, rowCount = length (to_json_default (Sheets wb n))\<rparr>)
            (filter (\<lambda>n. toLowerCase n \<noteq> ''definitions''
                          \<and> 0 < length (to_json_default (Sheets wb n))) (SheetNames wb)) \<and>
        (\<forall>only.
           (endsWith (upload_name f) ''.xlsx'' \<or> endsWith (upload_name f) ''.xls''
              \<or> endsWith (upload_name f) ''.csv'' \<or> upload_type f \<in> set validTypes)
           \<and> sheetList = [only] \<longrightarrow>
           handleFileSelect env to_json_default to_json_raw (Some f) st0
             = st0\<lparr>error := None, file' := Some f,
                   previewData := mapToContacts env (to_json_raw (Sheets wb (sname only))) None,
                   step := step_preview\<rparr>) \<and>
        (\<not> (endsWith (upload_name f) ''.xlsx'' \<or> endsWith (upload_name f) ''.xls''
              \<or> endsWith (upload_name f) ''.csv'' \<or> upload_type f \<in> set validTypes)
           \<longrightarrow>
           handleFileSelect env to_json_default to_json_raw (Some f) st0
             = st0\<lparr>error := Some ''Please upload an Excel file (.xlsx, .xls) or CSV file''\<rparr>) \<and>
        (let chosen = filter (\<lambda>s. sname s \<in> set (selectedSheets st)) sheetList;
             st' = handleSheetsConfirm env to_json_raw st
         in step st' = step_preview \<and>
            previewData st' =
              concat (map (\<lambda>s. mapToContacts env (to_json_raw (Sheets wb (sname s)))
                                  (Some (sname s))) chosen) \<and>
            length (previewData st') = sum_list (map rowCount chosen) \<and>
            (\<forall>s \<in> set chosen.
               \<forall>c \<in> set (mapToContacts env (to_json_raw (Sheets wb (sname s))) (Some (sname s))).
                 \<exists>rest. details c = Some (''['' @ sname s @ '']'' @ rest))))"
proof -
  define good where "good = filter (\<lambda>n. toLowerCase n \<noteq> ''definitions''
                          \<and> 0 < length (to_json_default (Sheets wb n))) (SheetNames wb)"
  define sheetList where "sheetList = map (sheet_info to_json_default wb) good"
  have g: "getExcelSheets to_json_default (upload_data f) = Inr sheetList"
    by (simp add: data getExcelSheets_eq sheetList_def good_def)
  have p: "parseAllSheets to_json_raw (upload_data f) = Inr (map (\<lambda>n. (n, to_json_raw (Sheets wb n))) good)"
    by (simp add: data parseAllSheets_eq[OF counts] good_def)
  have single: "handleFileSelect env to_json_default to_json_raw (Some f) st0
             = st0\<lparr>error := None, file' := Some f,
                   previewData := mapToContacts env (to_json_raw (Sheets wb (sname only))) None,
                   step := step_preview\<rparr>"
    if acc: "endsWith (upload_name f) ''.xlsx'' \<or> endsWith (upload_name f) ''.xls''
              \<or> endsWith (upload_name f) ''.csv'' \<or> upload_type f \<in> set validTypes"
      and one: "sheetList = [only]" for only
  proof -
    have "sname only \<in> set good"
      using one by (auto simp: sheetList_def sheet_info_def map_eq_Cons_conv)
    then have "sname only \<noteq> []" using names by (auto simp: good_def)
    then show ?thesis
      using one acc g
      by (simp add: handleFileSelect_def Let_def parseExcelFile_def data)
  qed
  have refused: "handleFileSelect env to_json_default to_json_raw (Some f) st0
             = st0\<lparr>error := Some ''Please upload an Excel file (.xlsx, .xls) or CSV file''\<rparr>"
    if "\<not> (endsWith (upload_name f) ''.xlsx'' \<or> endsWith (upload_name f) ''.xls''
              \<or> endsWith (upload_name f) ''.csv'' \<or> upload_type f \<in> set validTypes)"
    using that by (simp add: handleFileSelect_def Let_def)
  define chosen where "chosen = filter (\<lambda>s. sname s \<in> set (selectedSheets st)) sheetList"
  define cn where "cn = filter (\<lambda>n. n \<in> set (selectedSheets st)) good"
  have chosen: "chosen = map (sheet_info to_json_default wb) cn"
    by (simp add: chosen_def cn_def sheetList_def filter_map comp_def sheet_info_def)
  have fd: "filter (\<lambda>s. fst s \<in> set (selectedSheets st)) (map (\<lambda>n. (n, to_json_raw (Sheets wb n))) good)
      = map (\<lambda>n. (n, to_json_raw (Sheets wb n))) cn"
    by (simp add: cn_def filter_map comp_def)
  define st' where "st' = handleSheetsConfirm env to_json_raw st"
  have st': "st' = st\<lparr>error := None,
       previewData := concat (map (\<lambda>n. mapToContacts env (to_json_raw (Sheets wb n)) (Some n)) cn),
       step := step_preview\<rparr>"
    using sel by (simp add: st'_def handleSheetsConfirm_def cur p fd Let_def comp_def)
  have m1: "step st' = step_preview" by (simp add: st')
  have m2: "previewData st' =
              concat (map (\<lambda>s. mapToContacts env (to_json_raw (Sheets wb (sname s)))
                                  (Some (sname s))) chosen)"
    by (simp add: st' chosen comp_def sheet_info_def)
  have m3: "length (previewData st') = sum_list (map rowCount chosen)"
    by (simp add: st' length_concat_mapToContacts chosen comp_def sheet_info_def counts)
  have m4: "\<forall>s \<in> set chosen.
               \<forall>c \<in> set (mapToContacts env (to_json_raw (Sheets wb (sname s))) (Some (sname s))).
                 \<exists>rest. details c = Some (''['' @ sname s @ '']'' @ rest)"
  proof (intro ballI)
    fix s c assume s: "s \<in> set chosen"
      and c: "c \<in> set (mapToContacts env (to_json_raw (Sheets wb (sname s))) (Some (sname s)))"
    from s have "sname s \<in> set (SheetNames wb)"
      by (auto simp: chosen cn_def good_def sheet_info_def)
    with names have "sname s \<noteq> []" by auto
    from mapToContacts_marker[OF this c]
    show "\<exists>rest. details c = Some (''['' @ sname s @ '']'' @ rest)" .
  qed
  show ?thesis
    apply (rule exI[of _ sheetList])
    using g single refused m1 m2 m3 m4
    by (simp add: sheetList_def good_def sheet_info_def[abs_def] chosen_def st'_def Let_def)
qed

lemma demo_sheets:
  "getExcelSheets (\<lambda>sh. sh) (Workbook demo_workbook) =
     Inr [\<lparr>sname = ''LPs'', rowCount = 2\<rparr>, \<lparr>sname = ''Funds'', rowCount = 1\<rparr>,
          \<lparr>sname = ''Banks'', rowCount = 3\<rparr>]"
  by code_simp

lemma demo_selected_eq:
  "file' demo_selected = Some demo_upload \<and> selectedSheets demo_selected = [''LPs'', ''Banks'']"
  by (simp add: demo_selected_def handleSheetToggle_def handleFileSelect_def demo_sheets
        demo_upload_def demo_dialog_def endsWith_def Let_def)

lemma demo_sheets_single:
  "getExcelSheets (\<lambda>sh. sh) (Workbook (demo_workbook\<lparr>SheetNames := [''Definitions'', ''LPs'']\<rparr>)) = Inr [\<lparr>sname = ''LPs'', rowCount = 2\<rparr>]"
  by code_simp

lemma demo_details: "map details (previewData (handleSheetsConfirm engine_utc (\<lambda>sh. sh) demo_selected)) =
     [Some ''[LPs]'', Some ''[LPs]'', Some ''[Banks]'', Some ''[Banks]'', Some ''[Banks]'']"
    by code_simp

lemma demo_names: "map name (previewData
      (handleFileSelect engine_utc (\<lambda>sh. sh) (\<lambda>sh. sh) (Some demo_upload_single) demo_dialog))
     = [''Ann Lee'', ''Bo Chan'']"
    by code_simp


theorem sheet_discovery_witness:
  "[] \<notin> set (SheetNames demo_workbook) \<and>
   upload_data demo_upload = Workbook demo_workbook \<and>
   file' demo_selected = Some demo_upload \<and>
   selectedSheets demo_selected \<noteq> [] \<and>
   getExcelSheets (\<lambda>sh. sh) (upload_data demo_upload) =
     Inr [\<lparr>sname = ''LPs'', rowCount = 2\<rparr>, \<lparr>sname = ''Funds'', rowCount = 1\<rparr>,
          \<lparr>sname = ''Banks'', rowCount = 3\<rparr>] \<and>
   step (handleSheetsConfirm engine_utc (\<lambda>sh. sh) demo_selected) = step_preview \<and>
   length (previewData (handleSheetsConfirm engine_utc (\<lambda>sh. sh) demo_selected)) = 2 + 3 \<and>
   map details (previewData (handleSheetsConfirm engine_utc (\<lambda>sh. sh) demo_selected)) =
     [Some ''[LPs]'', Some ''[LPs]'', Some ''[Banks]'', Some ''[Banks]'', Some ''[Banks]''] \<and>
   upload_type demo_upload_single \<in> set validTypes \<and>
   step (handleFileSelect engine_utc (\<lambda>sh. sh) (\<lambda>sh. sh) (Some demo_upload_single) demo_dialog)
     = step_preview \<and>
   map name (previewData
      (handleFileSelect engine_utc (\<lambda>sh. sh) (\<lambda>sh. sh) (Some demo_upload_single) demo_dialog))
     = [''Ann Lee'', ''Bo Chan''] \<and>
   \<not> (endsWith (upload_name demo_upload_text) ''.xlsx''
        \<or> endsWith (upload_name demo_upload_text) ''.xls''
        \<or> endsWith (upload_name demo_upload_text) ''.csv''
        \<or> upload_type demo_upload_text \<in> set validTypes) \<and>
   error (handleFileSelect engine_utc (\<lambda>sh. sh) (\<lambda>sh. sh) (Some demo_upload_text) demo_dialog)
     = Some ''Please upload an Excel file (.xlsx, .xls) or CSV file''"
proof -
  have h1: "[] \<notin> set (SheetNames demo_workbook)" by (simp add: demo_workbook_def)
  have h3: "upload_data demo_upload = Workbook demo_workbook" by (simp add: demo_upload_def)
  have h4: "file' demo_selected = Some demo_upload" using demo_selected_eq by simp
  have h5: "selectedSheets demo_selected \<noteq> []" using demo_selected_eq by simp
  have g1: "[] \<notin> set (SheetNames (demo_workbook\<lparr>SheetNames := [''Definitions'', ''LPs'']\<rparr>))"
    by simp
  have g2: "upload_type demo_upload_single \<in> set validTypes"
    by (simp add: demo_upload_single_def validTypes_def)
  have g3: "upload_data demo_upload_single
      = Workbook (demo_workbook\<lparr>SheetNames := [''Definitions'', ''LPs'']\<rparr>)"
    by (simp add: demo_upload_single_def)
  have g4: "file' (demo_selected\<lparr>file' := Some demo_upload_single\<rparr>) = Some demo_upload_single"
    by simp
  have g5: "selectedSheets (demo_selected\<lparr>file' := Some demo_upload_single\<rparr>) \<noteq> []"
    using h5 by simp
  have r2: "\<not> (endsWith (upload_name demo_upload_text) ''.xlsx''
        \<or> endsWith (upload_name demo_upload_text) ''.xls''
        \<or> endsWith (upload_name demo_upload_text) ''.csv''
        \<or> upload_type demo_upload_text \<in> set validTypes)"
    by (simp add: demo_upload_text_def endsWith_def validTypes_def)
  have r3: "upload_data demo_upload_text = Workbook demo_workbook"
    by (simp add: demo_upload_text_def)
  have r4: "file' (demo_selected\<lparr>file' := Some demo_upload_text\<rparr>) = Some demo_upload_text"
    by simp
  have r5: "selectedSheets (demo_selected\<lparr>file' := Some demo_upload_text\<rparr>) \<noteq> []"
    using h5 by simp
  have s1: "getExcelSheets (\<lambda>sh. sh) (upload_data demo_upload) =
     Inr [\<lparr>sname = ''LPs'', rowCount = 2\<rparr>, \<lparr>sname = ''Funds'', rowCount = 1\<rparr>,
          \<lparr>sname = ''Banks'', rowCount = 3\<rparr>]"
    by (simp only: h3 demo_sheets)
  have s2: "getExcelSheets (\<lambda>sh. sh) (upload_data demo_upload_single) =
     Inr [\<lparr>sname = ''LPs'', rowCount = 2\<rparr>]"
    by (simp only: g3 demo_sheets_single)
  from sheet_discovery[of "\<lambda>sh. sh" "\<lambda>sh. sh" demo_workbook demo_upload demo_selected
      engine_utc demo_dialog, OF refl h1 h3 h4 h5, unfolded Let_def]
  obtain sheetList where
    a: "getExcelSheets (\<lambda>sh. sh) (upload_data demo_upload) = Inr sheetList"
    and st: "step (handleSheetsConfirm engine_utc (\<lambda>sh. sh) demo_selected) = step_preview"
    and ln: "length (previewData (handleSheetsConfirm engine_utc (\<lambda>sh. sh) demo_selected)) =
        sum_list (map rowCount (filter (\<lambda>s. sname s \<in> set (selectedSheets demo_selected)) sheetList))"
    by (elim exE conjE) (rule that)
  from a s1 have "sheetList = [\<lparr>sname = ''LPs'', rowCount = 2\<rparr>,
      \<lparr>sname = ''Funds'', rowCount = 1\<rparr>, \<lparr>sname = ''Banks'', rowCount = 3\<rparr>]"
    by simp
  with ln have ln': "length (previewData (handleSheetsConfirm engine_utc (\<lambda>sh. sh) demo_selected))
      = 2 + 3"
    by (simp add: demo_selected_eq)
  from sheet_discovery[of "\<lambda>sh. sh" "\<lambda>sh. sh"
      "demo_workbook\<lparr>SheetNames := [''Definitions'', ''LPs'']\<rparr>" demo_upload_single
      "demo_selected\<lparr>file' := Some demo_upload_single\<rparr>" engine_utc demo_dialog,
      OF refl g1 g3 g4 g5]
  obtain sheetList2 where
    b: "getExcelSheets (\<lambda>sh. sh) (upload_data demo_upload_single) = Inr sheetList2"
    and one: "\<forall>only.
           (endsWith (upload_name demo_upload_single) ''.xlsx''
              \<or> endsWith (upload_name demo_upload_single) ''.xls''
              \<or> endsWith (upload_name demo_upload_single) ''.csv''
              \<or> upload_type demo_upload_single \<in> set validTypes)
           \<and> sheetList2 = [only] \<longrightarrow>
           handleFileSelect engine_utc (\<lambda>sh. sh) (\<lambda>sh. sh) (Some demo_upload_single) demo_dialog
             = demo_dialog\<lparr>error := None, file' := Some demo_upload_single,
                   previewData := mapToContacts engine_utc
                      (Sheets (demo_workbook\<lparr>SheetNames := [''Definitions'', ''LPs'']\<rparr>)
                         (sname only)) None,
                   step := step_preview\<rparr>"
    by (elim exE conjE) (rule that)
  from b s2 have "sheetList2 = [\<lparr>sname = ''LPs'', rowCount = 2\<rparr>]" by simp
  with one g2 have single: "step (handleFileSelect engine_utc (\<lambda>sh. sh) (\<lambda>sh. sh)
      (Some demo_upload_single) demo_dialog) = step_preview"
    by simp
  from sheet_discovery[of "\<lambda>sh. sh" "\<lambda>sh. sh" demo_workbook demo_upload_text
      "demo_selected\<lparr>file' := Some demo_upload_text\<rparr>" engine_utc demo_dialog,
      OF refl h1 r3 r4 r5]
  obtain sheetList3 where
    no: "\<not> (endsWith (upload_name demo_upload_text) ''.xlsx''
              \<or> endsWith (upload_name demo_upload_text) ''.xls''
              \<or> endsWith (upload_name demo_upload_text) ''.csv''
              \<or> upload_type demo_upload_text \<in> set validTypes)
           \<longrightarrow>
           handleFileSelect engine_utc (\<lambda>sh. sh) (\<lambda>sh. sh) (Some demo_upload_text) demo_dialog
             = demo_dialog\<lparr>error := Some ''Please upload an Excel file (.xlsx, .xls) or CSV file''\<rparr>"
    by (elim exE conjE) (rule that)
  from no r2 have refused: "error (handleFileSelect engine_utc (\<lambda>sh. sh) (\<lambda>sh. sh)
      (Some demo_upload_text) demo_dialog)
     = Some ''Please upload an Excel file (.xlsx, .xls) or CSV file''"
    by simp
  show ?thesis
    by (intro conjI h1 h3 h4 h5 s1 st ln' demo_details g2 single demo_names r2 refused)
qed

section \<open>Properties of the date normalizer\<close>

text \<open>
  With the serial decoder of the library and local time equal to UTC, the examples of the
  description hold: the serial 45000, as a number or as text, is the 15th of March 2023,
  serial 60 is the 29th of February 1900, \<open>2024-03-15\<close> is itself, and text that is no
  date gives nothing.
\<close>

lemma parseExcelDate_examples:
  "map (parseExcelDate engine_utc)
     [JNum (Fin 45000), JStr ''45000'', JNum (Fin 60), JNum (Fin 61), JStr ''2024-03-15'',
      JStr ''not a date'', JStr ''  '', JNull, JNum (Fin 0)]
   = [Some ''2023-03-15'', Some ''2023-03-15'', Some ''1900-02-29'', Some ''1900-03-01'',
      Some ''2024-03-15'', None, None, None, None]"
  by code_simp

text \<open>
  A string takes the serial path as soon as \<open>parseFloat\<close> reads a number between 40000
  and 60000 at its start, whatever follows, and only then is \<open>new Date\<close> tried.
\<close>

lemma parseExcelDate_serial_prefix:
  assumes "parseFloat (trim s) = Fin q" "40000 < q" "q < 60000"
    "parse_date_code env (Fin q) = Some date"
  shows "parseExcelDate env (JStr s) = Some (format_ymd date)"
proof -
  from assms(1) have "trim s \<noteq> []"
    by (auto simp: parseFloat_def)
  then have "s \<noteq> []" by (auto simp: trim_def)
  with \<open>trim s \<noteq> []\<close> assms show ?thesis
    by (simp add: parseExcelDate_def Let_def)
qed

text \<open>
  C4. The claim asks that a string is decoded as a serial date only when it is purely
  numeric, and that \<open>2024-03-15\<close> yields \<open>2024-03-15\<close>. The code reads the number with
  \<open>parseFloat\<close>, which stops at the first character that does not fit, so \<open>45000abc\<close> is
  decoded as the serial 45000. It reads a date literal with \<open>new Date\<close>, which takes
  \<open>2024-03-15\<close> as midnight UTC, and prints the local date of that instant, which five
  hours west of UTC is the 14th.
\<close>

theorem parseExcelDate_diverges:
  "parseExcelDate engine_utc (JStr ''45000abc'') = Some ''2023-03-15'' \<and>
   parseExcelDate engine_utc_minus_5 (JStr ''2024-03-15'') = Some ''2024-03-14''"
  by code_simp

end
